theory Spec2Isabelle
  imports Complex_Main "HOL-Library.Char_ord" "HOL-Library.List_Lexorder"
    "HOL-Library.Product_Lexorder"
begin

section \<open>Numbers\<close>

text \<open>
  Coordinates and spans are Python floats, that is IEEE doubles. A double is modelled by
  the real number it denotes. The arithmetic on doubles is a parameter of the tiler: a
  record of the four operations and of \<open>round(x, ndigits)\<close>, each giving the double the
  machine returns. \<open>math.ceil\<close> of a double is the ceiling of its value, and a loop counter
  is converted to a double without error.
\<close>

record arith =
  fsub :: "real \<Rightarrow> real \<Rightarrow> real"
  fadd :: "real \<Rightarrow> real \<Rightarrow> real"
  fmul :: "real \<Rightarrow> real \<Rightarrow> real"
  fdiv :: "real \<Rightarrow> real \<Rightarrow> real"
  fround :: "real \<Rightarrow> nat \<Rightarrow> real"

text \<open>
  Rounding to the nearest integer, a tie going to the even one, and \<open>round(x, ndigits)\<close>
  without representation error: \<open>x * 10^ndigits\<close> is rounded and divided by
  \<open>10^ndigits\<close> again.
\<close>

definition rint :: "real \<Rightarrow> int" where
  "rint x =
     (let f = \<lfloor>x\<rfloor>; d = x - of_int f
      in if d < 1 / 2 then f
         else if 1 / 2 < d then f + 1
         else if even f then f else f + 1)"

definition py_round :: "real \<Rightarrow> nat \<Rightarrow> real" where
  "py_round x ndigits = of_int (rint (x * 10 ^ ndigits)) / 10 ^ ndigits"

text \<open>
  The arithmetic without rounding error. The pipelines below are run with it; what is
  proved of the tiler itself is proved for every arithmetic.
\<close>

definition exact :: arith where
  "exact = \<lparr>fsub = (-), fadd = (+), fmul = (*), fdiv = (/), fround = py_round\<rparr>"

section \<open>Extents and the area of interest\<close>

text \<open>An extent is the tuple \<open>(min_x, max_x, min_y, max_y)\<close>.\<close>

type_synonym extent = "real \<times> real \<times> real \<times> real"

text \<open>
  A geo-dataframe of the area of interest in one coordinate reference system. The code
  reads two things from it: \<open>gdf.total_bounds\<close>, in the order
  \<open>(min_x, min_y, max_x, max_y)\<close>, and \<open>gdf.intersects(box(...)).any()\<close>, where the box
  is built from \<open>(min_x, min_y, max_x, max_y)\<close>.
\<close>

record geoframe =
  total_bounds :: "real \<times> real \<times> real \<times> real"
  intersects :: "real \<times> real \<times> real \<times> real \<Rightarrow> bool"

text \<open>The area of interest as read from the file: \<open>aoi epsg\<close> is \<open>gdf.to_crs(epsg)\<close>.\<close>

type_synonym aoi = "nat \<Rightarrow> geoframe"

section \<open>The extent tiler\<close>

text \<open>
  \<open>split_extent\<close> exists twice in the source, once per pipeline, with the same body and
  different constants (\<open>subextent_size\<close>, \<open>tile_margin\<close>). The body is modelled once, with
  the arithmetic \<open>fp\<close> and the two constants as parameters.
\<close>

definition num_rows :: "arith \<Rightarrow> real \<Rightarrow> extent \<Rightarrow> int" where
  "num_rows fp subextent_size extent =
     (case extent of (min_x, max_x, min_y, max_y) \<Rightarrow>
        \<lceil>fdiv fp (fsub fp max_y min_y) subextent_size\<rceil>)"

definition num_cols :: "arith \<Rightarrow> real \<Rightarrow> extent \<Rightarrow> int" where
  "num_cols fp subextent_size extent =
     (case extent of (min_x, max_x, min_y, max_y) \<Rightarrow>
        \<lceil>fdiv fp (fsub fp max_x min_x) subextent_size\<rceil>)"

definition step_x :: "arith \<Rightarrow> real \<Rightarrow> extent \<Rightarrow> real" where
  "step_x fp subextent_size extent =
     (case extent of (min_x, max_x, min_y, max_y) \<Rightarrow>
        fdiv fp (fsub fp max_x min_x) (of_int (num_cols fp subextent_size extent)))"

definition step_y :: "arith \<Rightarrow> real \<Rightarrow> extent \<Rightarrow> real" where
  "step_y fp subextent_size extent =
     (case extent of (min_x, max_x, min_y, max_y) \<Rightarrow>
        fround fp (fdiv fp (fsub fp max_y min_y) (of_int (num_rows fp subextent_size extent))) 8)"

text \<open>
  The bounds of the tile at \<open>(row, col)\<close> before the margin is applied: the
  subexpressions \<open>min_x + col * step_x\<close>, \<open>min_x + (col + 1) * step_x\<close>,
  \<open>min_y + row * step_y\<close> and \<open>min_y + (row + 1) * step_y\<close> of the loop body.
\<close>

definition cell_min_x :: "arith \<Rightarrow> real \<Rightarrow> extent \<Rightarrow> nat \<Rightarrow> real" where
  "cell_min_x fp subextent_size extent col =
     (case extent of (min_x, max_x, min_y, max_y) \<Rightarrow>
        fadd fp min_x (fmul fp (of_nat col) (step_x fp subextent_size extent)))"

definition cell_max_x :: "arith \<Rightarrow> real \<Rightarrow> extent \<Rightarrow> nat \<Rightarrow> real" where
  "cell_max_x fp subextent_size extent col =
     (case extent of (min_x, max_x, min_y, max_y) \<Rightarrow>
        fadd fp min_x (fmul fp (of_nat (col + 1)) (step_x fp subextent_size extent)))"

definition cell_min_y :: "arith \<Rightarrow> real \<Rightarrow> extent \<Rightarrow> nat \<Rightarrow> real" where
  "cell_min_y fp subextent_size extent row =
     (case extent of (min_x, max_x, min_y, max_y) \<Rightarrow>
        fadd fp min_y (fmul fp (of_nat row) (step_y fp subextent_size extent)))"

definition cell_max_y :: "arith \<Rightarrow> real \<Rightarrow> extent \<Rightarrow> nat \<Rightarrow> real" where
  "cell_max_y fp subextent_size extent row =
     (case extent of (min_x, max_x, min_y, max_y) \<Rightarrow>
        fadd fp min_y (fmul fp (of_nat (row + 1)) (step_y fp subextent_size extent)))"

text \<open>The tile the loop body builds at \<open>(row, col)\<close>, margin applied and rounded.\<close>

definition subextent :: "arith \<Rightarrow> real \<Rightarrow> real \<Rightarrow> extent \<Rightarrow> nat \<Rightarrow> nat \<Rightarrow> extent" where
  "subextent fp subextent_size tile_margin extent row col =
     (let subextent_min_x =
            fround fp (fsub fp (cell_min_x fp subextent_size extent col) tile_margin) 8;
          subextent_max_x =
            fround fp (fadd fp (cell_max_x fp subextent_size extent col) tile_margin) 8;
          subextent_min_y =
            fround fp (fsub fp (cell_min_y fp subextent_size extent row) tile_margin) 8;
          subextent_max_y =
            fround fp (fadd fp (cell_max_y fp subextent_size extent row) tile_margin) 8
      in (subextent_min_x, subextent_max_x, subextent_min_y, subextent_max_y))"

definition subextent_box :: "extent \<Rightarrow> real \<times> real \<times> real \<times> real" where
  "subextent_box e = (case e of (min_x, max_x, min_y, max_y) \<Rightarrow> (min_x, min_y, max_x, max_y))"

definition split_extent_with ::
  "arith \<Rightarrow> real \<Rightarrow> real \<Rightarrow> extent \<Rightarrow> geoframe \<Rightarrow> extent list" where
  "split_extent_with fp subextent_size tile_margin extent gdf =
     concat (map (\<lambda>row.
       concat (map (\<lambda>col.
         let e = subextent fp subextent_size tile_margin extent row col
         in if intersects gdf (subextent_box e) then [e] else [])
         [0 ..< nat (num_cols fp subextent_size extent)]))
       [0 ..< nat (num_rows fp subextent_size extent)])"

text \<open>
  \<open>split_extent\<close> of the soils pipeline: tiles of 0.25 degrees, margin 0.0015 degrees.
  It is run with the arithmetic without rounding error.
\<close>

definition split_extent :: "extent \<Rightarrow> geoframe \<Rightarrow> extent list" where
  "split_extent = split_extent_with exact 0.25 0.0015"

text \<open>
  \<open>split_extent\<close> of the land-cover pipeline: tiles of 100000 m, margin 120 m. It is run
  with the arithmetic without rounding error.
\<close>

definition split_extent_nlcd :: "extent \<Rightarrow> geoframe \<Rightarrow> extent list" where
  "split_extent_nlcd = split_extent_with exact 100000 120"

section \<open>Errors\<close>

text \<open>The exceptions the modelled code can raise, as values.\<close>

datatype error =
    ValueError string
  | TypeError
  | FileNotFoundError
  | CsvError
  | EmptyDataError
  | AttributeError
  | RasterioIOError
  | IndexError
  | Exception string

section \<open>The soils pipeline: fetching\<close>

text \<open>
  A WFS request URL is determined by the four numbers of its bounding box; the model keeps
  the numbers in the order \<open>create_url\<close> receives them instead of the formatted text.
\<close>

datatype wfs_url = WfsUrl real real real real

definition create_url :: "real \<Rightarrow> real \<Rightarrow> real \<Rightarrow> real \<Rightarrow> wfs_url" where
  "create_url min_x min_y max_x max_y = WfsUrl min_x min_y max_x max_y"

text \<open>
  The remote feature service: \<open>wfs url n\<close> is the outcome of \<open>gpd.read_file\<close> on \<open>url\<close>
  when \<open>n\<close> reads of that URL were made before: \<open>None\<close> when the read raises, the frame
  (a list of features) otherwise. The state threaded through the fetch is the log of the
  URLs read so far, oldest first.
\<close>

type_synonym 'f wfs = "wfs_url \<Rightarrow> nat \<Rightarrow> 'f list option"

text \<open>
  The loop \<open>for attempt in range(3)\<close> of \<open>get_data\<close>. The accumulator is the local
  variable \<open>gdf_ssurgo\<close>: \<open>None\<close> while it is unbound, the last frame read otherwise.
  A read that raises is skipped by \<open>continue\<close>; a read that returns does not leave the loop.
\<close>

fun get_data_attempts ::
  "'f wfs \<Rightarrow> wfs_url \<Rightarrow> nat list \<Rightarrow> 'f list option \<times> wfs_url list \<Rightarrow> 'f list option \<times> wfs_url list" where
  "get_data_attempts wfs wfs_url [] (gdf_ssurgo, reads) = (gdf_ssurgo, reads)"
| "get_data_attempts wfs wfs_url (attempt # rest) (gdf_ssurgo, reads) =
     (case wfs wfs_url (count_list reads wfs_url) of
        None \<Rightarrow> get_data_attempts wfs wfs_url rest (gdf_ssurgo, reads @ [wfs_url])
      | Some g \<Rightarrow> get_data_attempts wfs wfs_url rest (Some g, reads @ [wfs_url]))"

text \<open>\<open>get_data\<close> returns the pair \<open>[gdf_ssurgo, failed_url]\<close>, and the log of reads.\<close>

definition get_data ::
  "'f wfs \<Rightarrow> wfs_url \<Rightarrow> wfs_url list \<Rightarrow> ('f list option \<times> wfs_url option) \<times> wfs_url list" where
  "get_data wfs wfs_url reads =
     (case get_data_attempts wfs wfs_url [0 ..< 3] (None, reads) of
        (gdf_ssurgo, reads') \<Rightarrow>
          (case gdf_ssurgo of
             Some g \<Rightarrow> if g \<noteq> [] then ((Some g, None), reads') else ((None, Some wfs_url), reads')
           | None \<Rightarrow> ((None, Some wfs_url), reads')))"

text \<open>
  \<open>map(get_data, urls)\<close> and \<open>pool.map(get_data, urls)\<close>: one call per URL, the results in
  the order of the URLs. The outcome of a read depends only on its URL and on the number
  of earlier reads of that URL, so the order in which the workers run does not show.
\<close>

fun map_get_data ::
  "'f wfs \<Rightarrow> wfs_url list \<Rightarrow> wfs_url list \<Rightarrow> ('f list option \<times> wfs_url option) list \<times> wfs_url list" where
  "map_get_data wfs [] reads = ([], reads)"
| "map_get_data wfs (u # us) reads =
     (case get_data wfs u reads of
        (r, reads') \<Rightarrow> (case map_get_data wfs us reads' of (rs, reads'') \<Rightarrow> (r # rs, reads'')))"

text \<open>
  \<open>get_failed_data\<close>: a second, serial call of \<open>get_data\<close> for each failed URL; the frames it
  retrieves are appended to \<open>gdf_ssurgo\<close>. \<open>get_data\<close> raises nothing, so the \<open>except\<close>
  branch is never taken.
\<close>

definition get_failed_data ::
  "'f wfs \<Rightarrow> wfs_url list \<Rightarrow> 'f list list \<Rightarrow> wfs_url list \<Rightarrow> 'f list list \<times> wfs_url list" where
  "get_failed_data wfs failed_url_list gdf_ssurgo reads =
     (case map_get_data wfs failed_url_list reads of
        (rerun_gdf, reads') \<Rightarrow> (gdf_ssurgo @ List.map_filter fst rerun_gdf, reads'))"

section \<open>The soils pipeline: acquisition\<close>

text \<open>The bounding box of the area of interest in EPSG:4326, buffered as the code does.\<close>

definition buffered_extent :: "geoframe \<Rightarrow> extent" where
  "buffered_extent gdf =
     (case total_bounds gdf of (min_x0, min_y0, max_x0, max_y0) \<Rightarrow>
        let min_x = min_x0 - \<bar>max_x0 - min_x0\<bar> * 0.05;
            min_y = min_y0 - \<bar>max_y0 - min_y0\<bar> * 0.05;
            max_x = max_x0 + \<bar>max_x0 - min_x\<bar> * 0.05;
            max_y = max_y0 + \<bar>max_y0 - min_y\<bar> * 0.05
        in (min_x, max_x, min_y, max_y))"

text \<open>The area \<open>span_x * span_y\<close> of an extent; the soils pipeline only prints it.\<close>

definition extent_area :: "extent \<Rightarrow> real" where
  "extent_area extent =
     (case extent of (min_x, max_x, min_y, max_y) \<Rightarrow> \<bar>max_x - min_x\<bar> * \<bar>max_y - min_y\<bar>)"

text \<open>\<open>drop_duplicates(subset=...)\<close>: the first row of every key is kept.\<close>

fun drop_duplicates_seen :: "('f \<Rightarrow> 'k) \<Rightarrow> 'k list \<Rightarrow> 'f list \<Rightarrow> 'f list" where
  "drop_duplicates_seen key seen [] = []"
| "drop_duplicates_seen key seen (x # xs) =
     (if key x \<in> set seen then drop_duplicates_seen key seen xs
      else x # drop_duplicates_seen key (key x # seen) xs)"

definition drop_duplicates :: "('f \<Rightarrow> 'k) \<Rightarrow> 'f list \<Rightarrow> 'f list" where
  "drop_duplicates key xs = drop_duplicates_seen key [] xs"

text \<open>The URLs \<open>acquire_ssurgo_data\<close> builds, one per tile of the buffered extent.\<close>

definition url_list :: "aoi \<Rightarrow> wfs_url list" where
  "url_list aoi =
     (let gdf = aoi 4326;
          extent = buffered_extent gdf;
          tile_extents = split_extent extent gdf
      in map (\<lambda>ext. case ext of (min_x, max_x, min_y, max_y) \<Rightarrow> create_url min_x min_y max_x max_y)
           tile_extents)"

text \<open>
  \<open>acquire_ssurgo_data\<close>. Parameters: the number of CPUs \<open>mp.cpu_count()\<close> reports, the
  feature service, the key \<open>(geometry, mukey)\<close> of a feature, the clip to the area of
  interest, and the area of interest. The result is the raised exception or the frame
  written to \<open>ssurgo_data.gpkg\<close>, and the log of the reads made. The pool is built with
  \<open>int(num_cores / 4)\<close> processes, and \<open>mp.Pool\<close> raises \<open>ValueError\<close> when that number is
  below 1.
\<close>

definition pool_processes :: "nat \<Rightarrow> nat" where
  "pool_processes num_cores = num_cores div 4"

definition acquire_ssurgo_data ::
  "nat \<Rightarrow> 'f wfs \<Rightarrow> ('f \<Rightarrow> 'k) \<Rightarrow> ('f list \<Rightarrow> 'f list) \<Rightarrow> aoi \<Rightarrow> (error + 'f list) \<times> wfs_url list" where
  "acquire_ssurgo_data num_cores wfs key clip aoi =
     (let urls = url_list aoi
      in if pool_processes num_cores < 1
         then (Inl (ValueError ''Number of processes must be at least 1''), [])
         else
           (case map_get_data wfs urls [] of
              (results, reads) \<Rightarrow>
                let gdf_ssurgo = List.map_filter fst results;
                    failed_url_list = List.map_filter snd results
                in (case (if failed_url_list \<noteq> []
                          then get_failed_data wfs failed_url_list gdf_ssurgo reads
                          else (gdf_ssurgo, reads)) of
                      (gdf_ssurgo', reads') \<Rightarrow>
                        if \<not> (\<exists>g \<in> set gdf_ssurgo'. g \<noteq> [])
                        then (Inl (Exception
                                ''The API is not responding or no data was retrieved. Wait and try again.''),
                              reads')
                        else
                          let merged_gdf = drop_duplicates key (concat gdf_ssurgo');
                              soils_gdf = clip merged_gdf
                          in (Inr soils_gdf, reads'))))"

section \<open>The hydrologic-group classifier\<close>

text \<open>
  A row of the component table returned by the tabular service: the map-unit key, the
  component percentage (\<open>None\<close> when null, which \<open>astype(float)\<close> turns into NaN) and the
  hydrologic group (\<open>None\<close> when null).
\<close>

record component =
  mukey :: string
  comppct_r :: "real option"
  hydgrp :: "string option"

text \<open>
  \<open>df.groupby(["hydgrp", "mukey"])["comppct_r"].sum().reset_index()\<close>: one row per pair
  \<open>(hydgrp, mukey)\<close> that occurs with a non-null group, the pairs in ascending order
  (strings compare lexicographically, character by character), each with the sum of its
  percentages; a NaN percentage is skipped by the sum.
\<close>

definition group_keys :: "component list \<Rightarrow> (string \<times> string) list" where
  "group_keys df =
     sort (remdups (List.map_filter (\<lambda>r. map_option (\<lambda>g. (g, mukey r)) (hydgrp r)) df))"

definition pct_sum :: "component list \<Rightarrow> string \<Rightarrow> string \<Rightarrow> real" where
  "pct_sum df g k =
     sum_list (map (\<lambda>r. case comppct_r r of None \<Rightarrow> 0 | Some p \<Rightarrow> p)
                 (filter (\<lambda>r. hydgrp r = Some g \<and> mukey r = k) df))"

definition grouped_data :: "component list \<Rightarrow> (string \<times> string \<times> real) list" where
  "grouped_data df = map (\<lambda>(g, k). (g, k, pct_sum df g k)) (group_keys df)"

text \<open>
  \<open>idxmax\<close> over the rows of one group: the first row that holds the maximum. \<open>best\<close> is
  the best row so far; a later row replaces it only when its value is strictly greater.
\<close>

fun idxmax :: "string \<times> string \<times> real \<Rightarrow> (string \<times> string \<times> real) list \<Rightarrow> string \<times> string \<times> real" where
  "idxmax best [] = best"
| "idxmax best (r # rs) = idxmax (if snd (snd best) < snd (snd r) then r else best) rs"

text \<open>
  \<open>grouped_data.groupby("mukey")["pct"].idxmax()\<close> for one map-unit key: the row \<open>idxmax\<close>
  selects among the rows of that key, taken in the order of \<open>grouped_data\<close>.
\<close>

definition group_idxmax ::
  "(string \<times> string \<times> real) list \<Rightarrow> string \<Rightarrow> (string \<times> string \<times> real) option" where
  "group_idxmax grouped k =
     (case filter (\<lambda>(g, k', pct). k' = k) grouped of
        [] \<Rightarrow> None
      | r # rs \<Rightarrow> Some (idxmax r rs))"

text \<open>
  \<open>grouped_data.loc[grouped_data.groupby("mukey")["pct"].idxmax()]\<close>: the selected row of
  every map-unit key of \<open>grouped_data\<close>, the keys in ascending order.
\<close>

definition hydrogroup_data :: "component list \<Rightarrow> (string \<times> string \<times> real) list" where
  "hydrogroup_data df =
     (let grouped = grouped_data df
      in List.map_filter (group_idxmax grouped)
           (sort (remdups (map (\<lambda>(g, k, pct). k) grouped))))"

text \<open>
  Python's \<open>s.replace(old, new)\<close>: the occurrences of \<open>old\<close> are replaced from left to
  right without overlap. An empty \<open>old\<close> is not modelled (the code passes \<open>"/"\<close>).
\<close>

fun str_replace :: "string \<Rightarrow> string \<Rightarrow> string \<Rightarrow> string" where
  "str_replace old new [] = []"
| "str_replace old new (c # cs) =
     (if old \<noteq> [] \<and> take (length old) (c # cs) = old
      then new @ str_replace old new (drop (length old - 1) cs)
      else c # str_replace old new cs)"

text \<open>
  The last steps of \<open>get_soils_hydro_group\<close> on the dissolved frame, a list of rows
  \<open>(Soil_Class, geometry)\<close>: the rows with a null class are deleted, \<open>"/"\<close> is replaced
  with \<open>"-"\<close> in every class, and the two columns are kept.
\<close>

definition soil_classes :: "(string option \<times> 'g) list \<Rightarrow> (string \<times> 'g) list" where
  "soil_classes soils_gdf =
     map (\<lambda>(c, geometry). (str_replace ''/'' ''-'' c, geometry))
       (List.map_filter (\<lambda>(c, geometry). map_option (\<lambda>s. (s, geometry)) c) soils_gdf)"

section \<open>The land-cover pipeline: files and the coverage service\<close>

text \<open>
  A raster band is a grid of cells, row by row. A cell is a number or undefined (\<open>None\<close>,
  the NaN of the float grid). The land-cover grid holds the NLCD codes as numbers.
\<close>

type_synonym raster = "real option list list"

text \<open>
  A file of the file system: a GeoTIFF with its band, or a CSV file with its header
  (\<open>csv.DictReader(f).fieldnames\<close>, \<open>None\<close> for a file without a header row) and, as
  \<open>pd.read_csv\<close> parses them, the pairs \<open>(value, mannings_n)\<close> of its rows.
\<close>

datatype content = GTiff raster | Csv "string list option" "(real \<times> real) list"

datatype wcs_url = WcsUrl extent

definition get_url :: "extent \<Rightarrow> wcs_url" where
  "get_url extent = WcsUrl extent"

text \<open>
  The state of the land-cover pipeline: the files and the WCS requests made so far,
  oldest first. The coverage service \<open>wcs n url\<close> is the outcome of \<open>gdal.Open(url)\<close> when
  \<open>n\<close> requests were made before: \<open>None\<close> when the dataset cannot be opened.
\<close>

record world =
  files :: "string \<rightharpoonup> content"
  requests :: "wcs_url list"

type_synonym wcs = "nat \<Rightarrow> wcs_url \<Rightarrow> raster option"

text \<open>\<open>str(i)\<close> for a non-negative integer, and \<open>os.path.join\<close> for a relative file name.\<close>

fun str_nat :: "nat \<Rightarrow> string" where
  "str_nat n =
     (if n < 10 then [char_of (48 + n)]
      else str_nat (n div 10) @ [char_of (48 + n mod 10)])"

definition path_join :: "string \<Rightarrow> string \<Rightarrow> string" where
  "path_join d f = (if d = [] \<or> last d = CHR ''/'' then d @ f else d @ ''/'' @ f)"

text \<open>\<open>get_img\<close>: one request; the file is written only when the dataset opens.\<close>

definition get_img :: "wcs \<Rightarrow> wcs_url \<Rightarrow> string \<Rightarrow> world \<Rightarrow> string \<times> world" where
  "get_img wcs wcs_url fname w =
     (case wcs (length (requests w)) wcs_url of
        None \<Rightarrow> (''fail'', w\<lparr>requests := requests w @ [wcs_url]\<rparr>)
      | Some ds \<Rightarrow>
          (''success'',
           w\<lparr>files := (files w)(fname \<mapsto> GTiff ds), requests := requests w @ [wcs_url]\<rparr>))"

text \<open>\<open>check_fields_in_csv\<close>: the required fields are looked up in the header, in order.\<close>

definition required_fields :: "string list" where
  "required_fields = [''value'', ''nlcd_name'', ''mannings_n'']"

fun check_fields :: "string list \<Rightarrow> string list \<Rightarrow> error + unit" where
  "check_fields fieldnames [] = Inr ()"
| "check_fields fieldnames (field # rest) =
     (if field \<notin> set fieldnames
      then Inl (ValueError (''Required field '' @ [CHR 0x27] @ field @ [CHR 0x27] @ '' not found in CSV file''))
      else check_fields fieldnames rest)"

definition check_fields_in_csv :: "string \<Rightarrow> world \<Rightarrow> error + unit" where
  "check_fields_in_csv file_path w =
     (case files w file_path of
        None \<Rightarrow> Inl FileNotFoundError
      | Some (GTiff r) \<Rightarrow> Inl CsvError
      | Some (Csv None rows) \<Rightarrow> Inl TypeError
      | Some (Csv (Some fieldnames) rows) \<Rightarrow> check_fields fieldnames required_fields)"

section \<open>The land-cover pipeline: the roughness remapper\<close>

text \<open>The default lookup of \<open>mock_csv_file\<close>: its header and its 20 rows.\<close>

definition mock_csv_file :: content where
  "mock_csv_file =
     Csv (Some [''value'', ''nlcd_name'', ''mannings_n''])
       [(11, 0.03), (12, 0.09999), (21, 0.045), (22, 0.075), (23, 0.081), (24, 0.137),
        (31, 0.03), (41, 0.114), (42, 0.13), (43, 0.121), (51, 0.09999), (52, 0.04),
        (71, 0.035), (72, 0.09999), (73, 0.09999), (74, 0.09999), (81, 0.04), (82, 0.04),
        (90, 0.08), (95, 0.079)]"

text \<open>
  \<open>pd.Series(df.mannings_n.values, index=df.value).to_dict()\<close>: a later row of the same
  value replaces an earlier one.
\<close>

definition value_to_manningsn :: "(real \<times> real) list \<Rightarrow> real \<rightharpoonup> real" where
  "value_to_manningsn rows = map_of (rev rows)"

text \<open>
  The vectorised \<open>dict.get\<close> followed by \<open>astype("float32")\<close>: a cell whose value has no
  entry gets \<open>None\<close> from \<open>get\<close>, which the conversion to float turns into NaN. An undefined
  cell has no entry either.
\<close>

definition remap :: "(real \<rightharpoonup> real) \<Rightarrow> raster \<Rightarrow> raster" where
  "remap lookup raster_data =
     map (map (\<lambda>cell. case cell of None \<Rightarrow> None | Some code \<Rightarrow> lookup code)) raster_data"

text \<open>
  \<open>pd.read_csv\<close> on the lookup: the default table when no path is given. The result is
  the header and the rows.
\<close>

definition read_csv :: "string option \<Rightarrow> world \<Rightarrow> error + string list \<times> (real \<times> real) list" where
  "read_csv nlcd_classifications_path w =
     (case (case nlcd_classifications_path of
              None \<Rightarrow> Some mock_csv_file
            | Some p \<Rightarrow> files w p) of
        None \<Rightarrow> Inl FileNotFoundError
      | Some (GTiff r) \<Rightarrow> Inl CsvError
      | Some (Csv None rows) \<Rightarrow> Inl EmptyDataError
      | Some (Csv (Some fieldnames) rows) \<Rightarrow> Inr (fieldnames, rows))"

text \<open>
  \<open>convert_to_mannings\<close>. The lookup is read first, then the raster is opened, then the
  columns \<open>mannings_n\<close> and \<open>value\<close> are taken from the table. \<open>np.vectorize\<close> raises
  \<open>ValueError\<close> on an array without cells.
\<close>

definition convert_to_mannings :: "string \<Rightarrow> string \<Rightarrow> string option \<Rightarrow> world \<Rightarrow> error + world" where
  "convert_to_mannings image_path out_img_mannings nlcd_classifications_path w =
     (case read_csv nlcd_classifications_path w of
        Inl e \<Rightarrow> Inl e
      | Inr (fieldnames, rows) \<Rightarrow>
          (case files w image_path of
             Some (GTiff raster_data) \<Rightarrow>
               if ''mannings_n'' \<in> set fieldnames \<and> ''value'' \<in> set fieldnames
               then
                 if concat raster_data = []
                 then Inl (ValueError ''cannot call `vectorize` on size 0 inputs unless `otypes` is set'')
                 else Inr (w\<lparr>files := (files w)(out_img_mannings \<mapsto>
                                GTiff (remap (value_to_manningsn rows) raster_data))\<rparr>)
               else Inl AttributeError
           | _ \<Rightarrow> Inl RasterioIOError))"

section \<open>The land-cover pipeline: acquisition\<close>

text \<open>
  Two collaborators are parameters: \<open>mask_crop gdf src\<close> is \<open>rasterio.mask.mask(src,
  gdf.geometry, crop=True)\<close>, which can raise, and \<open>warp tiles\<close> is \<open>gdal.Warp\<close> on the
  opened tiles, \<open>None\<close> when it writes nothing (GDAL exceptions are switched off).
\<close>

definition clip_image ::
  "(geoframe \<Rightarrow> raster \<Rightarrow> error + raster) \<Rightarrow> string \<Rightarrow> string \<Rightarrow> geoframe \<Rightarrow> world \<Rightarrow> error + world" where
  "clip_image mask_crop image_path out_img gdf w =
     (case files w image_path of
        Some (GTiff src) \<Rightarrow>
          (case mask_crop gdf src of
             Inl e \<Rightarrow> Inl e
           | Inr out_image \<Rightarrow> Inr (w\<lparr>files := (files w)(out_img \<mapsto> GTiff out_image)\<rparr>))
      | _ \<Rightarrow> Inl RasterioIOError)"

text \<open>
  \<open>build_mosaic\<close>. Every path the pipeline hands over was written by \<open>get_img\<close> or
  \<open>convert_to_mannings\<close> in the same run; should one not open, nothing is written.
\<close>

definition open_tile :: "world \<Rightarrow> string \<Rightarrow> raster option" where
  "open_tile w p = (case files w p of Some (GTiff r) \<Rightarrow> Some r | _ \<Rightarrow> None)"

definition build_mosaic :: "(raster list \<Rightarrow> raster option) \<Rightarrow> string list \<Rightarrow> string \<Rightarrow> world \<Rightarrow> world" where
  "build_mosaic warp input_imgs output_mosaic w =
     (case those (map (open_tile w) input_imgs) of
        None \<Rightarrow> w
      | Some tiles \<Rightarrow>
          (case warp tiles of
             None \<Rightarrow> w
           | Some r \<Rightarrow> w\<lparr>files := (files w)(output_mosaic \<mapsto> GTiff r)\<rparr>))"

text \<open>\<open>for tile in paths: os.remove(tile)\<close>; removing a missing file raises.\<close>

fun remove_tiles :: "string list \<Rightarrow> world \<Rightarrow> error \<times> world + world" where
  "remove_tiles [] w = Inr w"
| "remove_tiles (tile # rest) w =
     (if files w tile = None then Inl (FileNotFoundError, w)
      else remove_tiles rest (w\<lparr>files := (files w)(tile := None)\<rparr>))"

text \<open>
  The first loop of the tiled branch, over \<open>enumerate(tile_extents)\<close>. The accumulator is
  \<open>(failed_img, tile_paths, tile_paths_mannings)\<close>. \<open>convert_to_mannings\<close> is called on
  the tile file before the result of \<open>get_img\<close> is looked at. The result is the raised
  exception with the state at that point, or the accumulator and the state.
\<close>

fun fetch_tiles ::
  "wcs \<Rightarrow> string \<Rightarrow> string option \<Rightarrow> (nat \<times> extent) list \<Rightarrow> nat list \<times> string list \<times> string list \<Rightarrow>
   world \<Rightarrow> error \<times> world + (nat list \<times> string list \<times> string list) \<times> world" where
  "fetch_tiles wcs output_directory csv [] acc w = Inr (acc, w)"
| "fetch_tiles wcs output_directory csv ((i, ext) # rest) (failed_img, tile_paths, tile_paths_mannings) w =
     (let wcs_url = get_url ext;
          out_img = path_join output_directory (''nlcd_'' @ str_nat i @ ''.tif'');
          out_img_mannings = path_join output_directory (''mannings_n_'' @ str_nat i @ ''.tif'')
      in case get_img wcs wcs_url out_img w of
           (result, w1) \<Rightarrow>
             (case convert_to_mannings out_img out_img_mannings csv w1 of
                Inl e \<Rightarrow> Inl (e, w1)
              | Inr w2 \<Rightarrow>
                  if result = ''fail''
                  then fetch_tiles wcs output_directory csv rest
                         (failed_img @ [i], tile_paths, tile_paths_mannings) w2
                  else fetch_tiles wcs output_directory csv rest
                         (failed_img, tile_paths @ [out_img], tile_paths_mannings @ [out_img_mannings]) w2))"

text \<open>
  The second loop, over \<open>failed_img\<close>: one more request per failed tile, written to
  \<open>nlcd_{i}_{i}.tif\<close>. The accumulator is \<open>(tile_paths, tile_paths_mannings)\<close>.
\<close>

fun retry_tiles ::
  "wcs \<Rightarrow> string \<Rightarrow> string option \<Rightarrow> extent list \<Rightarrow> nat list \<Rightarrow> string list \<times> string list \<Rightarrow>
   world \<Rightarrow> error \<times> world + (string list \<times> string list) \<times> world" where
  "retry_tiles wcs output_directory csv tile_extents [] acc w = Inr (acc, w)"
| "retry_tiles wcs output_directory csv tile_extents (i # rest) (tile_paths, tile_paths_mannings) w =
     (if length tile_extents \<le> i then Inl (IndexError, w)
      else
        let ext = tile_extents ! i;
            out_img = path_join output_directory (''nlcd_'' @ str_nat i @ ''_'' @ str_nat i @ ''.tif'');
            out_img_mannings =
              path_join output_directory (''mannings_n_'' @ str_nat i @ ''_'' @ str_nat i @ ''.tif'');
            wcs_url = get_url ext
        in case get_img wcs wcs_url out_img w of
             (result, w1) \<Rightarrow>
               (case convert_to_mannings out_img out_img_mannings csv w1 of
                  Inl e \<Rightarrow> Inl (e, w1)
                | Inr w2 \<Rightarrow>
                    if result = ''success''
                    then retry_tiles wcs output_directory csv tile_extents rest
                           (tile_paths @ [out_img], tile_paths_mannings @ [out_img_mannings]) w2
                    else retry_tiles wcs output_directory csv tile_extents rest
                           (tile_paths, tile_paths_mannings) w2))"

text \<open>The branch \<open>area <= 9\<close>: one request for the whole extent.\<close>

definition get_whole_image ::
  "wcs \<Rightarrow> (geoframe \<Rightarrow> raster \<Rightarrow> error + raster) \<Rightarrow> geoframe \<Rightarrow> extent \<Rightarrow> string \<Rightarrow> string option \<Rightarrow>
   world \<Rightarrow> error \<times> world + world" where
  "get_whole_image wcs mask_crop gdf ext_albers output_directory csv w =
     (let out_img = path_join output_directory ''nlcd_clip.tif'';
          out_img_mannings = path_join output_directory ''mannings_n_clip.tif'';
          wcs_url = get_url ext_albers
      in case get_img wcs wcs_url out_img w of
           (result, w1) \<Rightarrow>
             (case convert_to_mannings out_img out_img_mannings csv w1 of
                Inl e \<Rightarrow> Inl (e, w1)
              | Inr w2 \<Rightarrow>
                  (case clip_image mask_crop out_img out_img gdf w2 of
                     Inl e \<Rightarrow> Inl (e, w2)
                   | Inr w3 \<Rightarrow>
                       (case clip_image mask_crop out_img_mannings out_img_mannings gdf w3 of
                          Inl e \<Rightarrow> Inl (e, w3)
                        | Inr w4 \<Rightarrow> Inr w4))))"

text \<open>The branch \<open>else\<close>: tiles, one retry pass, mosaic, removal of the tiles, clip.\<close>

definition get_by_chunks ::
  "wcs \<Rightarrow> (geoframe \<Rightarrow> raster \<Rightarrow> error + raster) \<Rightarrow> (raster list \<Rightarrow> raster option) \<Rightarrow> geoframe \<Rightarrow>
   extent \<Rightarrow> string \<Rightarrow> string option \<Rightarrow> world \<Rightarrow> error \<times> world + world" where
  "get_by_chunks wcs mask_crop warp gdf ext_albers output_directory csv w =
     (let tile_extents = split_extent_nlcd ext_albers gdf
      in case fetch_tiles wcs output_directory csv
                (zip [0 ..< length tile_extents] tile_extents) ([], [], []) w of
           Inl ew \<Rightarrow> Inl ew
         | Inr ((failed_img, tile_paths, tile_paths_mannings), w1) \<Rightarrow>
             (case retry_tiles wcs output_directory csv tile_extents failed_img
                     (tile_paths, tile_paths_mannings) w1 of
                Inl ew \<Rightarrow> Inl ew
              | Inr ((tile_paths', tile_paths_mannings'), w2) \<Rightarrow>
                  let output_mosaic = path_join output_directory ''nlcd_clip.tif'';
                      output_mosaic_mannings = path_join output_directory ''mannings_n_clip.tif'';
                      w3 = build_mosaic warp tile_paths' output_mosaic w2;
                      w4 = build_mosaic warp tile_paths_mannings' output_mosaic_mannings w3
                  in (case remove_tiles tile_paths' w4 of
                        Inl ew \<Rightarrow> Inl ew
                      | Inr w5 \<Rightarrow>
                          (case remove_tiles tile_paths_mannings' w5 of
                             Inl ew \<Rightarrow> Inl ew
                           | Inr w6 \<Rightarrow>
                               (case clip_image mask_crop output_mosaic output_mosaic gdf w6 of
                                  Inl e \<Rightarrow> Inl (e, w6)
                                | Inr w7 \<Rightarrow>
                                    (case clip_image mask_crop output_mosaic_mannings
                                            output_mosaic_mannings gdf w7 of
                                       Inl e \<Rightarrow> Inl (e, w7)
                                     | Inr w8 \<Rightarrow> Inr w8))))))"

text \<open>
  \<open>get_nlcd_and_convert\<close>: the lookup is validated first; the area is taken from the
  bounds in EPSG:4326, the requests from the bounds in EPSG:5070.
\<close>

definition extent_of_bounds :: "real \<times> real \<times> real \<times> real \<Rightarrow> extent" where
  "extent_of_bounds b = (case b of (min_x, min_y, max_x, max_y) \<Rightarrow> (min_x, max_x, min_y, max_y))"

definition get_nlcd_and_convert ::
  "wcs \<Rightarrow> (geoframe \<Rightarrow> raster \<Rightarrow> error + raster) \<Rightarrow> (raster list \<Rightarrow> raster option) \<Rightarrow> aoi \<Rightarrow>
   string \<Rightarrow> string option \<Rightarrow> world \<Rightarrow> error \<times> world + world" where
  "get_nlcd_and_convert wcs mask_crop warp aoi output_directory nlcd_classifications_path w =
     (case (case nlcd_classifications_path of
              None \<Rightarrow> Inr ()
            | Some p \<Rightarrow> check_fields_in_csv p w) of
        Inl e \<Rightarrow> Inl (e, w)
      | Inr u \<Rightarrow>
          let ext_wgs84 = extent_of_bounds (total_bounds (aoi 4326));
              area = extent_area ext_wgs84;
              gdf = aoi 5070;
              ext_albers = extent_of_bounds (total_bounds gdf)
          in if area \<le> 9
             then get_whole_image wcs mask_crop gdf ext_albers output_directory nlcd_classifications_path w
             else get_by_chunks wcs mask_crop warp gdf ext_albers output_directory
                    nlcd_classifications_path w)"

section \<open>Example inputs\<close>

text \<open>A frame that every box intersects.\<close>

definition everywhere :: geoframe where
  "everywhere = \<lparr>total_bounds = (0, 0, 1, 7 / 10), intersects = (\<lambda>b. True)\<rparr>"

text \<open>
  A decimal arithmetic with three digits after the point: the result of every operation
  is rounded to the nearest multiple of 0.001. It shows the rounding error of the
  operations on numbers that can be read.
\<close>

definition three_decimals :: arith where
  "three_decimals =
     \<lparr>fsub = (\<lambda>a b. py_round (a - b) 3), fadd = (\<lambda>a b. py_round (a + b) 3),
      fmul = (\<lambda>a b. py_round (a * b) 3), fdiv = (\<lambda>a b. py_round (a / b) 3),
      fround = py_round\<rparr>"


text \<open>
  A feature service that answers the first read of a URL with one feature, the second
  with an empty frame, and fails from the third read on.
\<close>

definition flaky_wfs :: "nat wfs" where
  "flaky_wfs = (\<lambda>url n. if n = 0 then Some [7] else if n = 1 then Some [] else None)"

text \<open>Two lookup files: one with a fourth column, one without the column \<open>mannings_n\<close>.\<close>

definition lookup_with_notes :: world where
  "lookup_with_notes =
     \<lparr>files = [''lookup.csv'' \<mapsto> Csv (Some [''value'', ''nlcd_name'', ''mannings_n'', ''notes'']) [(11, 0.03)]],
      requests = []\<rparr>"

definition lookup_without_mannings :: world where
  "lookup_without_mannings =
     \<lparr>files = [''lookup.csv'' \<mapsto> Csv (Some [''value'', ''nlcd_name'']) []], requests = []\<rparr>"

text \<open>An area of interest of 0.4 by 0.4 degrees, and one of 4 by 3 degrees (150 km by 100 km).\<close>

definition small_aoi :: aoi where
  "small_aoi = (\<lambda>epsg. \<lparr>total_bounds = (0, 0, 4 / 10, 4 / 10), intersects = (\<lambda>b. True)\<rparr>)"

definition large_aoi :: aoi where
  "large_aoi =
     (\<lambda>epsg. if epsg = 4326
             then \<lparr>total_bounds = (0, 0, 4, 3), intersects = (\<lambda>b. True)\<rparr>
             else \<lparr>total_bounds = (0, 0, 150000, 100000), intersects = (\<lambda>b. True)\<rparr>)"

text \<open>
  An empty output directory; a coverage service whose first request succeeds and every
  later one fails, and one whose first request fails and every later one succeeds; a clip
  that keeps the raster; a mosaic that keeps the first tile.
\<close>

definition empty_dir :: world where
  "empty_dir = \<lparr>files = Map.empty, requests = []\<rparr>"

definition wcs_second_fails :: wcs where
  "wcs_second_fails = (\<lambda>n url. if n = 0 then Some [[Some 11]] else None)"

definition wcs_first_fails :: wcs where
  "wcs_first_fails = (\<lambda>n url. if n = 0 then None else Some [[Some 11]])"

definition keep_all :: "geoframe \<Rightarrow> raster \<Rightarrow> error + raster" where
  "keep_all gdf src = Inr src"

definition first_tile :: "raster list \<Rightarrow> raster option" where
  "first_tile tiles = (case tiles of [] \<Rightarrow> None | r # rest \<Rightarrow> Some r)"

text \<open>
  Component rows in which the key 7 has the groups A: 10 + 20, C: 25 and a null
  percentage, B: 20 + 25; the key 8 has the group D: 60, and the key 9 no group.
\<close>

definition soil_components :: "component list" where
  "soil_components =
     [\<lparr>mukey = ''7'', comppct_r = Some 10, hydgrp = Some ''A''\<rparr>,
      \<lparr>mukey = ''7'', comppct_r = Some 25, hydgrp = Some ''C''\<rparr>,
      \<lparr>mukey = ''7'', comppct_r = Some 20, hydgrp = Some ''B''\<rparr>,
      \<lparr>mukey = ''8'', comppct_r = Some 60, hydgrp = Some ''D''\<rparr>,
      \<lparr>mukey = ''7'', comppct_r = Some 20, hydgrp = Some ''A''\<rparr>,
      \<lparr>mukey = ''7'', comppct_r = None, hydgrp = Some ''C''\<rparr>,
      \<lparr>mukey = ''7'', comppct_r = Some 25, hydgrp = Some ''B''\<rparr>,
      \<lparr>mukey = ''9'', comppct_r = Some 100, hydgrp = None\<rparr>]"

text \<open>
  A feature service on which the first URL of the small area never answers and every
  other URL answers with one feature, the URL itself.
\<close>

definition one_url_down :: "wfs_url wfs" where
  "one_url_down = (\<lambda>url n. if url = WfsUrl (- (43 / 2000)) (- (43 / 2000)) (101 / 500) (101 / 500)
                            then None else Some [url])"

section \<open>Properties of the extent tiler\<close>

text \<open>
  The tiles returned are the tiles of the grid, \<open>num_rows\<close> by \<open>num_cols\<close>, whose box
  intersects the frame. This holds in every arithmetic.
\<close>

lemma in_row_tiles:
  "x \<in> set (concat (map (\<lambda>col. if P col then [f col] else []) [0 ..< n]))
     \<longleftrightarrow> (\<exists>col < n. P col \<and> x = f col)"
  by (auto split: if_splits)

lemma set_split_extent_with:
  "set (split_extent_with fp s m e gdf) =
     {subextent fp s m e row col | row col.
        row < nat (num_rows fp s e) \<and> col < nat (num_cols fp s e) \<and>
        intersects gdf (subextent_box (subextent fp s m e row col))}"
proof -
  have "x \<in> set (split_extent_with fp s m e gdf) \<longleftrightarrow>
          (\<exists>row col. x = subextent fp s m e row col \<and> row < nat (num_rows fp s e)
             \<and> col < nat (num_cols fp s e)
             \<and> intersects gdf (subextent_box (subextent fp s m e row col)))" for x
  proof -
    have "x \<in> set (split_extent_with fp s m e gdf) \<longleftrightarrow>
       (\<exists>row < nat (num_rows fp s e).
          x \<in> set (concat (map (\<lambda>col. if intersects gdf (subextent_box (subextent fp s m e row col))
                                        then [subextent fp s m e row col] else [])
                             [0 ..< nat (num_cols fp s e)])))"
      by (auto simp: split_extent_with_def Let_def)
    also have "\<dots> \<longleftrightarrow> (\<exists>row < nat (num_rows fp s e). \<exists>col < nat (num_cols fp s e).
          intersects gdf (subextent_box (subextent fp s m e row col))
          \<and> x = subextent fp s m e row col)"
      by (simp only: in_row_tiles)
    finally show ?thesis by blast
  qed
  then show ?thesis by blast
qed

lemma last_index: "1 \<le> (n :: int) \<Longrightarrow> of_nat (nat n - 1 + 1) = (of_int n :: real)"
  by simp

text \<open>
  The distance between the end of the last cell of an axis and the upper bound \<open>hi\<close> of
  the extent on that axis, when each operation involved has a relative error of at most
  \<open>u\<close>: \<open>s1\<close> is the computed span \<open>hi - lo\<close>, \<open>s2\<close> the computed step, which may carry an
  additional absolute error \<open>rho\<close>, \<open>s3\<close> the computed product \<open>n * s2\<close> and \<open>E\<close> the
  computed sum \<open>lo + s3\<close>.
\<close>

lemma end_near:
  fixes lo hi u rho n s1 s2 s3 E :: real
  assumes "lo \<le> hi" and "0 \<le> u" and "u \<le> 1 / 16" and "0 \<le> rho" and "1 \<le> n"
    and h1: "\<bar>s1 - (hi - lo)\<bar> \<le> u * (hi - lo)"
    and h2: "\<bar>s2 - s1 / n\<bar> \<le> u * \<bar>s1 / n\<bar> + rho"
    and h3: "\<bar>s3 - n * s2\<bar> \<le> u * \<bar>n * s2\<bar>"
    and h4: "\<bar>E - (lo + s3)\<bar> \<le> u * \<bar>lo + s3\<bar>"
  shows "\<bar>E - hi\<bar> \<le> u * \<bar>hi\<bar> + 4 * u * (hi - lo) + 2 * n * rho"
proof -
  define w where "w = hi - lo"
  have hi: "hi = lo + w" by (simp add: w_def)
  have w0: "0 \<le> w" using assms(1) by (simp add: w_def)
  have n0: "0 < n" using assms(5) by simp
  have h1': "\<bar>s1 - w\<bar> \<le> u * w" using h1 by (simp add: w_def)
  have A: "\<bar>s1\<bar> \<le> w + u * w" using h1' w0 by linarith
  have "n * s2 - s1 = n * (s2 - s1 / n)" using n0 by (simp add: field_simps)
  then have e1: "\<bar>n * s2 - s1\<bar> = n * \<bar>s2 - s1 / n\<bar>" using n0 by (simp add: abs_mult)
  have e2: "n * (u * \<bar>s1 / n\<bar> + rho) = u * \<bar>s1\<bar> + n * rho"
    using n0 by (simp add: field_simps)
  have "n * \<bar>s2 - s1 / n\<bar> \<le> n * (u * \<bar>s1 / n\<bar> + rho)"
    using h2 n0 by (intro mult_left_mono) simp_all
  then have B0: "\<bar>n * s2 - s1\<bar> \<le> u * \<bar>s1\<bar> + n * rho" by (simp only: e1 e2)
  have uA: "u * \<bar>s1\<bar> \<le> u * (w + u * w)" using A assms(2) by (rule mult_left_mono)
  have B: "\<bar>n * s2\<bar> \<le> w + u * w + u * (w + u * w) + n * rho" using A B0 uA by linarith
  have uB: "u * \<bar>n * s2\<bar> \<le> u * (w + u * w + u * (w + u * w) + n * rho)"
    using B assms(2) by (rule mult_left_mono)
  define D where "D = u * (w + u * w + u * (w + u * w) + n * rho) + u * (w + u * w) + n * rho + u * w"
  have C: "\<bar>s3 - w\<bar> \<le> D" unfolding D_def using h3 uB B0 uA h1' by linarith
  have F: "\<bar>lo + s3\<bar> \<le> \<bar>hi\<bar> + D" using C hi by linarith
  have uF: "u * \<bar>lo + s3\<bar> \<le> u * (\<bar>hi\<bar> + D)" using F assms(2) by (rule mult_left_mono)
  have G: "\<bar>E - hi\<bar> \<le> u * (\<bar>hi\<bar> + D) + D" using h4 uF C hi by linarith
  have nr: "0 \<le> n * rho" using n0 assms(4) by simp
  have uw: "0 \<le> u * w" using w0 assms(2) by simp
  have Deq: "u * (\<bar>hi\<bar> + D) + D
      = u * \<bar>hi\<bar> + (u * w) * (3 + 6 * u + 4 * (u * u) + u * u * u) + (n * rho) * (1 + 2 * u + u * u)"
    by (simp add: D_def algebra_simps)
  have u2: "u * u \<le> 1 / 256" using mult_mono [OF assms(3) assms(3)] assms(2) by simp
  have u3: "u * u * u \<le> 1 / 4096"
    using mult_mono [OF u2 assms(3)] assms(2) by simp
  have p1: "3 + 6 * u + 4 * (u * u) + u * u * u \<le> 4" using assms(3) u2 u3 by linarith
  have p2: "1 + 2 * u + u * u \<le> 2" using assms(3) u2 by linarith
  have m1: "(u * w) * (3 + 6 * u + 4 * (u * u) + u * u * u) \<le> (u * w) * 4"
    using p1 uw by (rule mult_left_mono)
  have m2: "(n * rho) * (1 + 2 * u + u * u) \<le> (n * rho) * 2"
    using p2 nr by (rule mult_left_mono)
  have "\<bar>E - hi\<bar> \<le> u * \<bar>hi\<bar> + (u * w) * 4 + (n * rho) * 2"
    using G m1 m2 unfolding Deq by linarith
  then show ?thesis by (simp add: w_def algebra_simps)
qed

text \<open>
  Without rounding error the columns end at \<open>max_x\<close>, and the rows within
  \<open>num_rows * 0.5e-8\<close> of \<open>max_y\<close>, because of the rounding of the step in y to 8
  decimals.
\<close>

lemma rint_near: "\<bar>of_int (rint x) - x\<bar> \<le> 1 / 2"
proof -
  have "of_int \<lfloor>x\<rfloor> \<le> x" "x < of_int \<lfloor>x\<rfloor> + 1" by linarith+
  then show ?thesis by (auto simp: rint_def Let_def)
qed

lemma py_round_near: "\<bar>py_round x n - x\<bar> \<le> 1 / (2 * 10 ^ n)"
proof -
  define p :: real where "p = 10 ^ n"
  define r :: real where "r = of_int (rint (x * p))"
  have p: "0 < p" by (simp add: p_def)
  have "\<bar>r - x * p\<bar> \<le> 1 / 2" unfolding r_def by (rule rint_near)
  with p have "\<bar>r - x * p\<bar> / p \<le> (1 / 2) / p"
    by (rule_tac divide_right_mono) auto
  moreover have "r / p - x = (r - x * p) / p"
    using p by (simp add: field_simps)
  then have "\<bar>r - x * p\<bar> / p = \<bar>r / p - x\<bar>"
    using p by simp
  ultimately show ?thesis by (simp add: py_round_def p_def r_def)
qed

lemma count_ge_1:
  assumes "0 < s" "(a::real) < b" shows "1 \<le> \<lceil>(b - a) / s\<rceil>"
proof -
  have "0 < (b - a) / s" using assms by simp
  then have "0 < \<lceil>(b - a) / s\<rceil>" by linarith
  then show ?thesis by simp
qed

lemma exact_columns_partition:
  assumes "0 < s" "min_x < max_x"
  shows "cell_max_x exact s (min_x, max_x, min_y, max_y)
           (nat (num_cols exact s (min_x, max_x, min_y, max_y)) - 1) = max_x"
proof -
  let ?e = "(min_x, max_x, min_y, max_y)"
  have n: "1 \<le> num_cols exact s ?e"
    using assms by (simp add: num_cols_def exact_def count_ge_1)
  then have "of_nat (nat (num_cols exact s ?e) - 1 + 1) = (of_int (num_cols exact s ?e) :: real)"
    by simp
  then have "cell_max_x exact s ?e (nat (num_cols exact s ?e) - 1)
      = min_x + of_int (num_cols exact s ?e) * step_x exact s ?e"
    by (simp add: cell_max_x_def exact_def del: of_nat_add of_nat_Suc)
  also have "\<dots> = max_x" using n by (simp add: step_x_def exact_def)
  finally show ?thesis .
qed

lemma exact_rows_cover:
  assumes "0 < s" "min_y < max_y"
  shows "\<bar>cell_max_y exact s (min_x, max_x, min_y, max_y)
            (nat (num_rows exact s (min_x, max_x, min_y, max_y)) - 1) - max_y\<bar>
          \<le> of_int (num_rows exact s (min_x, max_x, min_y, max_y)) / (2 * 10 ^ 8)"
proof -
  let ?e = "(min_x, max_x, min_y, max_y)"
  define n :: real where "n = of_int (num_rows exact s ?e)"
  define q where "q = (max_y - min_y) / n"
  have n1: "1 \<le> num_rows exact s ?e"
    using assms by (simp add: num_rows_def exact_def count_ge_1)
  then have npos: "0 < n" by (simp add: n_def)
  from n1 have "of_nat (nat (num_rows exact s ?e) - 1 + 1) = n"
    by (simp add: n_def)
  then have top: "cell_max_y exact s ?e (nat (num_rows exact s ?e) - 1)
      = min_y + n * step_y exact s ?e"
    by (simp add: cell_max_y_def exact_def del: of_nat_add of_nat_Suc)
  have sy: "step_y exact s ?e = py_round q 8" by (simp add: step_y_def exact_def q_def n_def)
  have "\<bar>py_round q 8 - q\<bar> \<le> 1 / (2 * 10 ^ 8)" by (rule py_round_near)
  then have "n * \<bar>py_round q 8 - q\<bar> \<le> n * (1 / (2 * 10 ^ 8))"
    using npos by (rule_tac mult_left_mono) auto
  moreover have "n * \<bar>py_round q 8 - q\<bar> = \<bar>n * py_round q 8 - n * q\<bar>"
    using npos by (simp add: abs_mult right_diff_distrib[symmetric])
  moreover have "n * q = max_y - min_y" using npos by (simp add: q_def)
  ultimately have "\<bar>min_y + n * py_round q 8 - max_y\<bar> \<le> n / (2 * 10 ^ 8)"
    by (simp add: algebra_simps)
  then show ?thesis
    by (simp only: top sy n_def)
qed

text \<open>
  C4, as stated, fails: for the extent \<open>(0, 1, 0, 0.7)\<close> and the soils tile size 0.25 the
  tiler uses 3 rows, the step in y is \<open>0.7 / 3\<close> rounded to 8 decimals, which is not the
  exact quotient, and the top of the last row before the margin is \<open>0.69999999\<close>, not
  \<open>0.7\<close>. The arithmetic is the one without rounding error here; the rounding of the
  step to 8 decimals is in the source.
\<close>

theorem split_extent_partition_counterexample:
  "\<not> (step_y exact (25 / 100) (0, 1, 0, 7 / 10)
        = (7 / 10 - 0) / of_int (num_rows exact (25 / 100) (0, 1, 0, 7 / 10))
      \<and> cell_max_y exact (25 / 100) (0, 1, 0, 7 / 10)
          (nat (num_rows exact (25 / 100) (0, 1, 0, 7 / 10)) - 1) = 7 / 10)"
  by (simp add: step_y_def num_rows_def exact_def py_round_def rint_def Let_def)

text \<open>
  C4, amended. In every arithmetic, that of IEEE doubles included, and for every extent
  and tile size for which both counts are at least 1 (with a count of 0 the source
  divides by zero, with a negative one it makes no tile):
  the row count is the ceiling of the computed quotient of the height by the tile size,
  the column count that of the computed quotient of the width by the tile size;
  the step in x is the computed quotient of the width by the column count, and the
  step in y the computed quotient of the height by the row count, rounded to 8 decimals;
  before the margin the first column starts at \<open>min_x\<close>, every column ends where the next
  one starts, and the last column ends at the computed value of
  \<open>min_x + num_cols * step_x\<close>; likewise for the rows;
  each bound of a tile is the bound of its cell minus or plus the margin, rounded to 8
  decimals, so the margin takes no part in the arithmetic of the grid;
  the tiles returned are those of the grid whose box intersects the frame.
  The last column need not end at \<open>max_x\<close>. When the subtraction, the division, the
  multiplication and the addition that lead to its end each have a relative error of at
  most \<open>u \<le> 1/16\<close>, it ends within \<open>u * |max_x| + 4 * u * (max_x - min_x)\<close> of \<open>max_x\<close>;
  the last row, whose step carries in addition the absolute error \<open>rho\<close> of the rounding
  to 8 decimals, ends within \<open>u * |max_y| + 4 * u * (max_y - min_y) + 2 * num_rows * rho\<close>
  of \<open>max_y\<close>.
  The hypotheses on 0 say that \<open>0 * step\<close> is 0 and that \<open>min + 0\<close> is \<open>min\<close>, which holds
  of doubles. In the example, computed with three decimals, the extent \<open>(0, 1, 0, 0.7)\<close>
  is cut at the size 0.15 into 7 columns with the step 0.143, and the last column ends at
  1.001.
\<close>

theorem split_extent_partition:
  assumes "1 \<le> num_rows fp subextent_size (min_x, max_x, min_y, max_y)"
    and "1 \<le> num_cols fp subextent_size (min_x, max_x, min_y, max_y)"
    and "fmul fp 0 (step_x fp subextent_size (min_x, max_x, min_y, max_y)) = 0"
    and "fadd fp min_x 0 = min_x"
    and "fmul fp 0 (step_y fp subextent_size (min_x, max_x, min_y, max_y)) = 0"
    and "fadd fp min_y 0 = min_y"
  shows
    "num_rows fp subextent_size (min_x, max_x, min_y, max_y)
       = \<lceil>fdiv fp (fsub fp max_y min_y) subextent_size\<rceil>
     \<and> num_cols fp subextent_size (min_x, max_x, min_y, max_y)
       = \<lceil>fdiv fp (fsub fp max_x min_x) subextent_size\<rceil>
     \<and> step_x fp subextent_size (min_x, max_x, min_y, max_y)
       = fdiv fp (fsub fp max_x min_x)
           (of_int (num_cols fp subextent_size (min_x, max_x, min_y, max_y)))
     \<and> step_y fp subextent_size (min_x, max_x, min_y, max_y)
       = fround fp (fdiv fp (fsub fp max_y min_y)
           (of_int (num_rows fp subextent_size (min_x, max_x, min_y, max_y)))) 8
     \<and> cell_min_x fp subextent_size (min_x, max_x, min_y, max_y) 0 = min_x
     \<and> cell_max_x fp subextent_size (min_x, max_x, min_y, max_y) col
         = cell_min_x fp subextent_size (min_x, max_x, min_y, max_y) (Suc col)
     \<and> cell_max_x fp subextent_size (min_x, max_x, min_y, max_y)
           (nat (num_cols fp subextent_size (min_x, max_x, min_y, max_y)) - 1)
         = fadd fp min_x
             (fmul fp (of_int (num_cols fp subextent_size (min_x, max_x, min_y, max_y)))
                (step_x fp subextent_size (min_x, max_x, min_y, max_y)))
     \<and> cell_min_y fp subextent_size (min_x, max_x, min_y, max_y) 0 = min_y
     \<and> cell_max_y fp subextent_size (min_x, max_x, min_y, max_y) row
         = cell_min_y fp subextent_size (min_x, max_x, min_y, max_y) (Suc row)
     \<and> cell_max_y fp subextent_size (min_x, max_x, min_y, max_y)
           (nat (num_rows fp subextent_size (min_x, max_x, min_y, max_y)) - 1)
         = fadd fp min_y
             (fmul fp (of_int (num_rows fp subextent_size (min_x, max_x, min_y, max_y)))
                (step_y fp subextent_size (min_x, max_x, min_y, max_y)))
     \<and> subextent fp subextent_size tile_margin (min_x, max_x, min_y, max_y) row col
         = (fround fp (fsub fp (cell_min_x fp subextent_size (min_x, max_x, min_y, max_y) col)
                         tile_margin) 8,
            fround fp (fadd fp (cell_max_x fp subextent_size (min_x, max_x, min_y, max_y) col)
                         tile_margin) 8,
            fround fp (fsub fp (cell_min_y fp subextent_size (min_x, max_x, min_y, max_y) row)
                         tile_margin) 8,
            fround fp (fadd fp (cell_max_y fp subextent_size (min_x, max_x, min_y, max_y) row)
                         tile_margin) 8)
     \<and> set (split_extent_with fp subextent_size tile_margin (min_x, max_x, min_y, max_y) gdf)
         = {subextent fp subextent_size tile_margin (min_x, max_x, min_y, max_y) r c | r c.
              r < nat (num_rows fp subextent_size (min_x, max_x, min_y, max_y))
              \<and> c < nat (num_cols fp subextent_size (min_x, max_x, min_y, max_y))
              \<and> intersects gdf (subextent_box
                    (subextent fp subextent_size tile_margin (min_x, max_x, min_y, max_y) r c))}
     \<and> (min_x \<le> max_x \<and> 0 \<le> u \<and> u \<le> 1 / 16
          \<and> \<bar>fsub fp max_x min_x - (max_x - min_x)\<bar> \<le> u * (max_x - min_x)
          \<and> \<bar>step_x fp subextent_size (min_x, max_x, min_y, max_y)
                - fsub fp max_x min_x
                  / of_int (num_cols fp subextent_size (min_x, max_x, min_y, max_y))\<bar>
              \<le> u * \<bar>fsub fp max_x min_x
                        / of_int (num_cols fp subextent_size (min_x, max_x, min_y, max_y))\<bar>
          \<and> \<bar>fmul fp (of_int (num_cols fp subextent_size (min_x, max_x, min_y, max_y)))
                  (step_x fp subextent_size (min_x, max_x, min_y, max_y))
                - of_int (num_cols fp subextent_size (min_x, max_x, min_y, max_y))
                  * step_x fp subextent_size (min_x, max_x, min_y, max_y)\<bar>
              \<le> u * \<bar>of_int (num_cols fp subextent_size (min_x, max_x, min_y, max_y))
                        * step_x fp subextent_size (min_x, max_x, min_y, max_y)\<bar>
          \<and> \<bar>fadd fp min_x
                  (fmul fp (of_int (num_cols fp subextent_size (min_x, max_x, min_y, max_y)))
                     (step_x fp subextent_size (min_x, max_x, min_y, max_y)))
                - (min_x
                   + fmul fp (of_int (num_cols fp subextent_size (min_x, max_x, min_y, max_y)))
                       (step_x fp subextent_size (min_x, max_x, min_y, max_y)))\<bar>
              \<le> u * \<bar>min_x
                        + fmul fp (of_int (num_cols fp subextent_size (min_x, max_x, min_y, max_y)))
                            (step_x fp subextent_size (min_x, max_x, min_y, max_y))\<bar>
          \<longrightarrow>
          \<bar>cell_max_x fp subextent_size (min_x, max_x, min_y, max_y)
             (nat (num_cols fp subextent_size (min_x, max_x, min_y, max_y)) - 1) - max_x\<bar>
            \<le> u * \<bar>max_x\<bar> + 4 * u * (max_x - min_x))
     \<and> (min_y \<le> max_y \<and> 0 \<le> u \<and> u \<le> 1 / 16 \<and> 0 \<le> rho
          \<and> \<bar>fsub fp max_y min_y - (max_y - min_y)\<bar> \<le> u * (max_y - min_y)
          \<and> \<bar>step_y fp subextent_size (min_x, max_x, min_y, max_y)
                - fsub fp max_y min_y
                  / of_int (num_rows fp subextent_size (min_x, max_x, min_y, max_y))\<bar>
              \<le> u * \<bar>fsub fp max_y min_y
                        / of_int (num_rows fp subextent_size (min_x, max_x, min_y, max_y))\<bar> + rho
          \<and> \<bar>fmul fp (of_int (num_rows fp subextent_size (min_x, max_x, min_y, max_y)))
                  (step_y fp subextent_size (min_x, max_x, min_y, max_y))
                - of_int (num_rows fp subextent_size (min_x, max_x, min_y, max_y))
                  * step_y fp subextent_size (min_x, max_x, min_y, max_y)\<bar>
              \<le> u * \<bar>of_int (num_rows fp subextent_size (min_x, max_x, min_y, max_y))
                        * step_y fp subextent_size (min_x, max_x, min_y, max_y)\<bar>
          \<and> \<bar>fadd fp min_y
                  (fmul fp (of_int (num_rows fp subextent_size (min_x, max_x, min_y, max_y)))
                     (step_y fp subextent_size (min_x, max_x, min_y, max_y)))
                - (min_y
                   + fmul fp (of_int (num_rows fp subextent_size (min_x, max_x, min_y, max_y)))
                       (step_y fp subextent_size (min_x, max_x, min_y, max_y)))\<bar>
              \<le> u * \<bar>min_y
                        + fmul fp (of_int (num_rows fp subextent_size (min_x, max_x, min_y, max_y)))
                            (step_y fp subextent_size (min_x, max_x, min_y, max_y))\<bar>
          \<longrightarrow>
          \<bar>cell_max_y fp subextent_size (min_x, max_x, min_y, max_y)
             (nat (num_rows fp subextent_size (min_x, max_x, min_y, max_y)) - 1) - max_y\<bar>
            \<le> u * \<bar>max_y\<bar> + 4 * u * (max_y - min_y)
              + 2 * of_int (num_rows fp subextent_size (min_x, max_x, min_y, max_y)) * rho)"
proof -
  let ?e = "(min_x, max_x, min_y, max_y)"
  have 1: "num_rows fp subextent_size ?e = \<lceil>fdiv fp (fsub fp max_y min_y) subextent_size\<rceil>"
    by (simp add: num_rows_def)
  have 2: "num_cols fp subextent_size ?e = \<lceil>fdiv fp (fsub fp max_x min_x) subextent_size\<rceil>"
    by (simp add: num_cols_def)
  have 3: "step_x fp subextent_size ?e
       = fdiv fp (fsub fp max_x min_x) (of_int (num_cols fp subextent_size ?e))"
    by (simp add: step_x_def)
  have 4: "step_y fp subextent_size ?e
       = fround fp (fdiv fp (fsub fp max_y min_y) (of_int (num_rows fp subextent_size ?e))) 8"
    by (simp add: step_y_def)
  have 5: "cell_min_x fp subextent_size ?e 0 = min_x"
    using assms(3,4) by (simp add: cell_min_x_def)
  have 6: "cell_max_x fp subextent_size ?e col = cell_min_x fp subextent_size ?e (Suc col)"
    by (simp add: cell_min_x_def cell_max_x_def)
  have 7: "cell_max_x fp subextent_size ?e (nat (num_cols fp subextent_size ?e) - 1)
          = fadd fp min_x (fmul fp (of_int (num_cols fp subextent_size ?e))
                             (step_x fp subextent_size ?e))"
    using assms(2) by (simp add: cell_max_x_def last_index del: of_nat_add of_nat_Suc)
  have 8: "cell_min_y fp subextent_size ?e 0 = min_y"
    using assms(5,6) by (simp add: cell_min_y_def)
  have 9: "cell_max_y fp subextent_size ?e row = cell_min_y fp subextent_size ?e (Suc row)"
    by (simp add: cell_min_y_def cell_max_y_def)
  have 10: "cell_max_y fp subextent_size ?e (nat (num_rows fp subextent_size ?e) - 1)
          = fadd fp min_y (fmul fp (of_int (num_rows fp subextent_size ?e))
                             (step_y fp subextent_size ?e))"
    using assms(1) by (simp add: cell_max_y_def last_index del: of_nat_add of_nat_Suc)
  have 11: "subextent fp subextent_size tile_margin ?e row col
         = (fround fp (fsub fp (cell_min_x fp subextent_size ?e col) tile_margin) 8,
            fround fp (fadd fp (cell_max_x fp subextent_size ?e col) tile_margin) 8,
            fround fp (fsub fp (cell_min_y fp subextent_size ?e row) tile_margin) 8,
            fround fp (fadd fp (cell_max_y fp subextent_size ?e row) tile_margin) 8)"
    by (simp add: subextent_def)
  note 12 = set_split_extent_with [of fp subextent_size tile_margin ?e gdf]
  have 13: "min_x \<le> max_x \<and> 0 \<le> u \<and> u \<le> 1 / 16
          \<and> \<bar>fsub fp max_x min_x - (max_x - min_x)\<bar> \<le> u * (max_x - min_x)
          \<and> \<bar>step_x fp subextent_size ?e
                - fsub fp max_x min_x / of_int (num_cols fp subextent_size ?e)\<bar>
              \<le> u * \<bar>fsub fp max_x min_x / of_int (num_cols fp subextent_size ?e)\<bar>
          \<and> \<bar>fmul fp (of_int (num_cols fp subextent_size ?e)) (step_x fp subextent_size ?e)
                - of_int (num_cols fp subextent_size ?e) * step_x fp subextent_size ?e\<bar>
              \<le> u * \<bar>of_int (num_cols fp subextent_size ?e) * step_x fp subextent_size ?e\<bar>
          \<and> \<bar>fadd fp min_x
                  (fmul fp (of_int (num_cols fp subextent_size ?e)) (step_x fp subextent_size ?e))
                - (min_x
                   + fmul fp (of_int (num_cols fp subextent_size ?e))
                       (step_x fp subextent_size ?e))\<bar>
              \<le> u * \<bar>min_x
                        + fmul fp (of_int (num_cols fp subextent_size ?e))
                            (step_x fp subextent_size ?e)\<bar>
          \<longrightarrow>
          \<bar>cell_max_x fp subextent_size ?e (nat (num_cols fp subextent_size ?e) - 1) - max_x\<bar>
            \<le> u * \<bar>max_x\<bar> + 4 * u * (max_x - min_x)"
  proof (intro impI, elim conjE)
    note n = assms(2)
    assume a: "min_x \<le> max_x" "0 \<le> u" "u \<le> 1 / 16"
      and h1: "\<bar>fsub fp max_x min_x - (max_x - min_x)\<bar> \<le> u * (max_x - min_x)"
      and h2: "\<bar>step_x fp subextent_size ?e
                - fsub fp max_x min_x / of_int (num_cols fp subextent_size ?e)\<bar>
              \<le> u * \<bar>fsub fp max_x min_x / of_int (num_cols fp subextent_size ?e)\<bar>"
      and h3: "\<bar>fmul fp (of_int (num_cols fp subextent_size ?e)) (step_x fp subextent_size ?e)
                - of_int (num_cols fp subextent_size ?e) * step_x fp subextent_size ?e\<bar>
              \<le> u * \<bar>of_int (num_cols fp subextent_size ?e) * step_x fp subextent_size ?e\<bar>"
      and h4: "\<bar>fadd fp min_x
                  (fmul fp (of_int (num_cols fp subextent_size ?e)) (step_x fp subextent_size ?e))
                - (min_x
                   + fmul fp (of_int (num_cols fp subextent_size ?e))
                       (step_x fp subextent_size ?e))\<bar>
              \<le> u * \<bar>min_x
                        + fmul fp (of_int (num_cols fp subextent_size ?e))
                            (step_x fp subextent_size ?e)\<bar>"
    from n have n': "1 \<le> (of_int (num_cols fp subextent_size ?e) :: real)" by simp
    from h2 have h2': "\<bar>step_x fp subextent_size ?e
                - fsub fp max_x min_x / of_int (num_cols fp subextent_size ?e)\<bar>
              \<le> u * \<bar>fsub fp max_x min_x / of_int (num_cols fp subextent_size ?e)\<bar> + 0"
      by simp
    have "\<bar>fadd fp min_x
             (fmul fp (of_int (num_cols fp subextent_size ?e)) (step_x fp subextent_size ?e))
           - max_x\<bar>
          \<le> u * \<bar>max_x\<bar> + 4 * u * (max_x - min_x)
              + 2 * of_int (num_cols fp subextent_size ?e) * 0"
      by (rule end_near [OF a _ n' h1 h2' h3 h4]) simp
    with 7 show "\<bar>cell_max_x fp subextent_size ?e (nat (num_cols fp subextent_size ?e) - 1)
          - max_x\<bar> \<le> u * \<bar>max_x\<bar> + 4 * u * (max_x - min_x)"
      by simp
  qed
  have 14: "min_y \<le> max_y \<and> 0 \<le> u \<and> u \<le> 1 / 16 \<and> 0 \<le> rho
          \<and> \<bar>fsub fp max_y min_y - (max_y - min_y)\<bar> \<le> u * (max_y - min_y)
          \<and> \<bar>step_y fp subextent_size ?e
                - fsub fp max_y min_y / of_int (num_rows fp subextent_size ?e)\<bar>
              \<le> u * \<bar>fsub fp max_y min_y / of_int (num_rows fp subextent_size ?e)\<bar> + rho
          \<and> \<bar>fmul fp (of_int (num_rows fp subextent_size ?e)) (step_y fp subextent_size ?e)
                - of_int (num_rows fp subextent_size ?e) * step_y fp subextent_size ?e\<bar>
              \<le> u * \<bar>of_int (num_rows fp subextent_size ?e) * step_y fp subextent_size ?e\<bar>
          \<and> \<bar>fadd fp min_y
                  (fmul fp (of_int (num_rows fp subextent_size ?e)) (step_y fp subextent_size ?e))
                - (min_y
                   + fmul fp (of_int (num_rows fp subextent_size ?e))
                       (step_y fp subextent_size ?e))\<bar>
              \<le> u * \<bar>min_y
                        + fmul fp (of_int (num_rows fp subextent_size ?e))
                            (step_y fp subextent_size ?e)\<bar>
          \<longrightarrow>
          \<bar>cell_max_y fp subextent_size ?e (nat (num_rows fp subextent_size ?e) - 1) - max_y\<bar>
            \<le> u * \<bar>max_y\<bar> + 4 * u * (max_y - min_y)
              + 2 * of_int (num_rows fp subextent_size ?e) * rho"
  proof (intro impI, elim conjE)
    note n = assms(1)
    assume a: "min_y \<le> max_y" "0 \<le> u" "u \<le> 1 / 16" "0 \<le> rho"
      and h1: "\<bar>fsub fp max_y min_y - (max_y - min_y)\<bar> \<le> u * (max_y - min_y)"
      and h2: "\<bar>step_y fp subextent_size ?e
                - fsub fp max_y min_y / of_int (num_rows fp subextent_size ?e)\<bar>
              \<le> u * \<bar>fsub fp max_y min_y / of_int (num_rows fp subextent_size ?e)\<bar> + rho"
      and h3: "\<bar>fmul fp (of_int (num_rows fp subextent_size ?e)) (step_y fp subextent_size ?e)
                - of_int (num_rows fp subextent_size ?e) * step_y fp subextent_size ?e\<bar>
              \<le> u * \<bar>of_int (num_rows fp subextent_size ?e) * step_y fp subextent_size ?e\<bar>"
      and h4: "\<bar>fadd fp min_y
                  (fmul fp (of_int (num_rows fp subextent_size ?e)) (step_y fp subextent_size ?e))
                - (min_y
                   + fmul fp (of_int (num_rows fp subextent_size ?e))
                       (step_y fp subextent_size ?e))\<bar>
              \<le> u * \<bar>min_y
                        + fmul fp (of_int (num_rows fp subextent_size ?e))
                            (step_y fp subextent_size ?e)\<bar>"
    from n have n': "1 \<le> (of_int (num_rows fp subextent_size ?e) :: real)" by simp
    have "\<bar>fadd fp min_y
             (fmul fp (of_int (num_rows fp subextent_size ?e)) (step_y fp subextent_size ?e))
           - max_y\<bar>
          \<le> u * \<bar>max_y\<bar> + 4 * u * (max_y - min_y)
              + 2 * of_int (num_rows fp subextent_size ?e) * rho"
      by (rule end_near [OF a n' h1 h2 h3 h4])
    with 10 show "\<bar>cell_max_y fp subextent_size ?e (nat (num_rows fp subextent_size ?e) - 1)
          - max_y\<bar> \<le> u * \<bar>max_y\<bar> + 4 * u * (max_y - min_y)
              + 2 * of_int (num_rows fp subextent_size ?e) * rho"
      by simp
  qed
  from 1 2 3 4 5 6 7 8 9 10 11 12 13 14 show ?thesis by (intro conjI)
qed

theorem split_extent_partition_witness:
  "1 \<le> num_rows three_decimals (3 / 20) (0, 1, 0, 7 / 10)
   \<and> 1 \<le> num_cols three_decimals (3 / 20) (0, 1, 0, 7 / 10)
   \<and> fmul three_decimals 0 (step_x three_decimals (3 / 20) (0, 1, 0, 7 / 10)) = 0
   \<and> fadd three_decimals 0 0 = 0
   \<and> fmul three_decimals 0 (step_y three_decimals (3 / 20) (0, 1, 0, 7 / 10)) = 0
   \<and> num_cols three_decimals (3 / 20) (0, 1, 0, 7 / 10) = 7
   \<and> step_x three_decimals (3 / 20) (0, 1, 0, 7 / 10) = 143 / 1000
   \<and> cell_min_x three_decimals (3 / 20) (0, 1, 0, 7 / 10) 0 = 0
   \<and> cell_max_x three_decimals (3 / 20) (0, 1, 0, 7 / 10) 5
       = cell_min_x three_decimals (3 / 20) (0, 1, 0, 7 / 10) 6
   \<and> cell_max_x three_decimals (3 / 20) (0, 1, 0, 7 / 10) 6 = 1001 / 1000
   \<and> \<bar>step_x three_decimals (3 / 20) (0, 1, 0, 7 / 10)
        - fsub three_decimals 1 0 / 7\<bar> \<le> 1 / 500 * \<bar>fsub three_decimals 1 0 / 7\<bar>
   \<and> \<bar>cell_max_x three_decimals (3 / 20) (0, 1, 0, 7 / 10) 6 - 1\<bar>
       \<le> 1 / 500 * \<bar>1\<bar> + 4 * (1 / 500) * (1 - 0)
   \<and> num_rows three_decimals (3 / 20) (0, 1, 0, 7 / 10) = 5
   \<and> step_y three_decimals (3 / 20) (0, 1, 0, 7 / 10) = 7 / 50
   \<and> \<bar>cell_max_y three_decimals (3 / 20) (0, 1, 0, 7 / 10) 4 - 7 / 10\<bar>
       \<le> 1 / 500 * \<bar>7 / 10\<bar> + 4 * (1 / 500) * (7 / 10 - 0) + 2 * 5 * (1 / 10 ^ 8)"
proof -
  let ?e = "(0, 1, 0, 7 / 10) :: extent"
  have n: "num_cols three_decimals (3 / 20) ?e = 7"
    by (simp add: num_cols_def three_decimals_def py_round_def rint_def)
  have m: "num_rows three_decimals (3 / 20) ?e = 5"
    by (simp add: num_rows_def three_decimals_def py_round_def rint_def)
  have sx: "step_x three_decimals (3 / 20) ?e = 143 / 1000"
    by (simp only: step_x_def n prod.case) (simp add: three_decimals_def py_round_def rint_def)
  have sy: "step_y three_decimals (3 / 20) ?e = 7 / 50"
    by (simp only: step_y_def m prod.case) (simp add: three_decimals_def py_round_def rint_def)
  have ops: "fsub three_decimals 1 0 = 1" "fsub three_decimals (7 / 10) 0 = 7 / 10"
    "fmul three_decimals 0 (143 / 1000) = 0" "fmul three_decimals 0 (7 / 50) = 0"
    "fadd three_decimals 0 0 = 0"
    "fmul three_decimals 7 (143 / 1000) = 1001 / 1000"
    "fadd three_decimals 0 (1001 / 1000) = 1001 / 1000"
    "fmul three_decimals 5 (7 / 50) = 7 / 10"
    "fadd three_decimals 0 (7 / 10) = 7 / 10"
    by (simp_all add: three_decimals_def py_round_def rint_def)
  have h: "fmul three_decimals 0 (step_x three_decimals (3 / 20) ?e) = 0"
    "fadd three_decimals 0 0 = 0"
    "fmul three_decimals 0 (step_y three_decimals (3 / 20) ?e) = 0"
    "fadd three_decimals 0 0 = 0"
    by (simp_all only: sx sy ops)
  have c: "1 \<le> num_rows three_decimals (3 / 20) ?e" "1 \<le> num_cols three_decimals (3 / 20) ?e"
    by (simp_all only: n m)
  note t = split_extent_partition [OF c h, where col = 5 and row = 0 and tile_margin = "2 / 1000"
      and gdf = everywhere and u = "1 / 500" and rho = "1 / 10 ^ 8"]
  from t show ?thesis by (simp add: n m sx sy ops)
qed

section \<open>Properties of the hydrologic-group labels\<close>

lemma str_replace_slash:
  "str_replace ''/'' ''-'' s = map (\<lambda>c. if c = CHR ''/'' then CHR ''-'' else c) s"
  by (induction s) auto

text \<open>
  C9: every label of the classifier's output is the class of a row of the dissolved frame
  with a non-null class, with every \<open>"/"\<close> replaced by \<open>"-"\<close>; no label of the output
  contains \<open>"/"\<close>; \<open>"A/D"\<close> becomes \<open>"A-D"\<close>; a label without \<open>"/"\<close> is left as it is.
\<close>

theorem soil_classes_normalized:
  "soil_classes soils_gdf
     = map (\<lambda>(s, geometry). (map (\<lambda>c. if c = CHR ''/'' then CHR ''-'' else c) s, geometry))
         (List.map_filter (\<lambda>(c, geometry). map_option (\<lambda>s. (s, geometry)) c) soils_gdf)
   \<and> (\<forall>(label, geometry) \<in> set (soil_classes soils_gdf). CHR ''/'' \<notin> set label)
   \<and> str_replace ''/'' ''-'' ''A/D'' = ''A-D''
   \<and> (CHR ''/'' \<notin> set s \<longrightarrow> str_replace ''/'' ''-'' s = s)"
proof -
  have 1: "soil_classes soils_gdf
     = map (\<lambda>(s, geometry). (map (\<lambda>c. if c = CHR ''/'' then CHR ''-'' else c) s, geometry))
         (List.map_filter (\<lambda>(c, geometry). map_option (\<lambda>s. (s, geometry)) c) soils_gdf)"
    by (simp add: soil_classes_def str_replace_slash)
  have 2: "\<forall>(label, geometry) \<in> set (soil_classes soils_gdf). CHR ''/'' \<notin> set label"
    unfolding 1 by auto
  have 3: "str_replace ''/'' ''-'' ''A/D'' = ''A-D''"
    by (simp add: str_replace_slash)
  have 4: "CHR ''/'' \<notin> set s \<longrightarrow> str_replace ''/'' ''-'' s = s"
    by (induction s) (auto simp: str_replace_slash)
  from 1 2 3 4 show ?thesis by (intro conjI)
qed

theorem soil_classes_normalized_witness:
  "soil_classes [(Some ''A/D'', 1 :: nat), (None, 2), (Some ''B'', 3)] = [(''A-D'', 1), (''B'', 3)]
   \<and> CHR ''/'' \<notin> set ''B'' \<and> str_replace ''/'' ''-'' ''B'' = ''B''"
  using soil_classes_normalized [of "[(Some ''A/D'', 1 :: nat), (None, 2), (Some ''B'', 3)]" "''B''"]
  by (simp add: List.map_filter_def)

section \<open>Properties of the roughness remapper\<close>





section \<open>Properties of the lookup validation\<close>

lemma check_fields_iff:
  "check_fields fieldnames required = Inr () \<longleftrightarrow> set required \<subseteq> set fieldnames"
  by (induction required) auto

lemma check_fields_error:
  "check_fields fieldnames required \<noteq> Inr () \<Longrightarrow>
     \<exists>msg. check_fields fieldnames required = Inl (ValueError msg)"
  by (induction required) (auto split: if_splits)

text \<open>
  C8, as stated, fails: a lookup with the columns \<open>value\<close>, \<open>nlcd_name\<close>, \<open>mannings_n\<close> and
  a fourth column \<open>notes\<close> passes the validation, so the columns need not be exactly the
  three required ones.
\<close>

theorem check_fields_exactly_counterexample:
  "check_fields_in_csv ''lookup.csv'' lookup_with_notes = Inr ()
   \<and> files lookup_with_notes ''lookup.csv''
       = Some (Csv (Some [''value'', ''nlcd_name'', ''mannings_n'', ''notes'']) [(11, 0.03)])
   \<and> ''notes'' \<notin> set required_fields"
  by (simp add: check_fields_in_csv_def lookup_with_notes_def required_fields_def)

text \<open>
  C8, amended: a user-supplied lookup passes the validation exactly when it has a header
  that contains at least the columns \<open>value\<close>, \<open>nlcd_name\<close> and \<open>mannings_n\<close>; when it does
  not pass, \<open>get_nlcd_and_convert\<close> raises and leaves the state as it was: no request was
  made and no file written. A header that lacks one of the three columns raises
  \<open>ValueError\<close>.
\<close>

theorem lookup_validated_first:
  assumes "files w p = Some (Csv header rows)"
  shows "(check_fields_in_csv p w = Inr () \<longleftrightarrow>
            (\<exists>fieldnames. header = Some fieldnames
               \<and> {''value'', ''nlcd_name'', ''mannings_n''} \<subseteq> set fieldnames))
         \<and> (check_fields_in_csv p w \<noteq> Inr () \<longrightarrow>
              (\<exists>e. get_nlcd_and_convert wcs mask_crop warp aoi output_directory (Some p) w
                       = Inl (e, w)))
         \<and> (\<forall>fieldnames. header = Some fieldnames
               \<and> \<not> {''value'', ''nlcd_name'', ''mannings_n''} \<subseteq> set fieldnames \<longrightarrow>
              (\<exists>msg. get_nlcd_and_convert wcs mask_crop warp aoi output_directory (Some p) w
                       = Inl (ValueError msg, w)))"
proof -
  have r: "set required_fields = {''value'', ''nlcd_name'', ''mannings_n''}"
    by (simp add: required_fields_def)
  have c: "check_fields_in_csv p w = check_fields fieldnames required_fields"
    if "header = Some fieldnames" for fieldnames
    using assms that by (simp add: check_fields_in_csv_def)
  have n: "check_fields_in_csv p w = Inl TypeError" if "header = None"
    using assms that by (simp add: check_fields_in_csv_def)
  have 1: "check_fields_in_csv p w = Inr () \<longleftrightarrow>
            (\<exists>fieldnames. header = Some fieldnames
               \<and> {''value'', ''nlcd_name'', ''mannings_n''} \<subseteq> set fieldnames)"
  proof (cases header)
    case None
    with n show ?thesis by simp
  next
    case (Some fieldnames)
    with c [OF Some] show ?thesis by (simp add: check_fields_iff r)
  qed
  have 2: "\<exists>e. get_nlcd_and_convert wcs mask_crop warp aoi output_directory (Some p) w = Inl (e, w)"
    if "check_fields_in_csv p w \<noteq> Inr ()"
  proof -
    from that obtain e where "check_fields_in_csv p w = Inl e"
      by (cases "check_fields_in_csv p w") auto
    then show ?thesis by (simp add: get_nlcd_and_convert_def)
  qed
  have 3: "\<exists>msg. get_nlcd_and_convert wcs mask_crop warp aoi output_directory (Some p) w
                       = Inl (ValueError msg, w)"
    if h: "header = Some fieldnames"
      and m: "\<not> {''value'', ''nlcd_name'', ''mannings_n''} \<subseteq> set fieldnames" for fieldnames
  proof -
    from m have "check_fields fieldnames required_fields \<noteq> Inr ()"
      using check_fields_iff [of fieldnames required_fields] r by simp
    then obtain msg where "check_fields_in_csv p w = Inl (ValueError msg)"
      unfolding c [OF h] using check_fields_error by blast
    then show ?thesis by (simp add: get_nlcd_and_convert_def)
  qed
  from 1 2 3 show ?thesis by blast
qed

theorem lookup_validated_first_witness:
  "files lookup_without_mannings ''lookup.csv'' = Some (Csv (Some [''value'', ''nlcd_name'']) [])
   \<and> check_fields_in_csv ''lookup.csv'' lookup_without_mannings \<noteq> Inr ()
   \<and> (\<exists>msg. get_nlcd_and_convert wcs_first_fails keep_all first_tile large_aoi ''out''
                (Some ''lookup.csv'') lookup_without_mannings
          = Inl (ValueError msg, lookup_without_mannings))"
proof -
  have f: "files lookup_without_mannings ''lookup.csv'' = Some (Csv (Some [''value'', ''nlcd_name'']) [])"
    by (simp add: lookup_without_mannings_def)
  have n: "\<not> {''value'', ''nlcd_name'', ''mannings_n''} \<subseteq> set [''value'', ''nlcd_name'']"
    by simp
  from lookup_validated_first [OF f, of wcs_first_fails keep_all first_tile large_aoi "''out''"] f n
  show ?thesis by blast
qed

section \<open>Properties of the soils pipeline\<close>

text \<open>
  C10: the pool has \<open>int(cpu_count / 4)\<close> processes; with fewer than 4 CPUs that is 0, the
  construction of the pool raises \<open>ValueError\<close>, and \<open>acquire_ssurgo_data\<close> ends without a
  single read, whatever the area of interest.
\<close>

theorem small_host_aborts:
  assumes "num_cores < 4"
  shows "pool_processes num_cores = 0
         \<and> acquire_ssurgo_data num_cores wfs key clip aoi
             = (Inl (ValueError ''Number of processes must be at least 1''), [])"
  using assms by (simp add: pool_processes_def acquire_ssurgo_data_def Let_def)

theorem small_host_aborts_witness:
  "(3 :: nat) < 4 \<and> pool_processes 3 = 0
   \<and> acquire_ssurgo_data 3 flaky_wfs id id small_aoi
       = (Inl (ValueError ''Number of processes must be at least 1''), [])"
proof -
  have h: "(3 :: nat) < 4" by simp
  from small_host_aborts [OF h, of flaky_wfs id id small_aoi] h show ?thesis by blast
qed

text \<open>Every call of \<open>get_data\<close> reads its URL three times, whatever the reads return.\<close>

lemma get_data_attempts_reads:
  "snd (get_data_attempts wfs u attempts (acc, reads)) = reads @ replicate (length attempts) u"
  by (induction attempts arbitrary: acc reads) (auto split: option.splits simp: replicate_append_same)

lemma get_data_three_reads:
  "snd (get_data wfs u reads) = reads @ [u, u, u]"
proof -
  have "snd (get_data_attempts wfs u [0 ..< 3] (None, reads)) = reads @ replicate 3 u"
    using get_data_attempts_reads [of wfs u "[0 ..< 3]" None reads] by simp
  then show ?thesis
    by (auto simp: get_data_def numeral_3_eq_3 split: prod.splits option.splits)
qed

text \<open>
  C5 does not hold of the code: the loop of \<open>get_data\<close> has no \<open>break\<close>. When the first
  read returns a feature, the second an empty frame and the third raises, all three reads
  are made and the URL is reported as failed, although the first read succeeded.
\<close>

theorem get_data_no_break:
  "get_data flaky_wfs (WfsUrl 0 0 1 1) []
     = ((None, Some (WfsUrl 0 0 1 1)), [WfsUrl 0 0 1 1, WfsUrl 0 0 1 1, WfsUrl 0 0 1 1])"
  by (simp add: get_data_def flaky_wfs_def upt_rec)

text \<open>
  C1 does not hold of the soils pipeline: for an area of interest of 0.4 by 0.4 degrees
  the area is below 9 square degrees, with and without the buffer, and
  \<open>acquire_ssurgo_data\<close> still calls the tiler and builds 4 URLs.
\<close>

theorem small_area_tiled:
  "extent_area (buffered_extent (small_aoi 4326)) \<le> 9
   \<and> extent_area (extent_of_bounds (total_bounds (small_aoi 4326))) \<le> 9
   \<and> length (url_list small_aoi) = 4"
  by (simp add: extent_area_def buffered_extent_def small_aoi_def Let_def url_list_def
      extent_of_bounds_def
      split_extent_def split_extent_with_def num_rows_def num_cols_def exact_def upt_rec)

section \<open>Properties of the land-cover pipeline\<close>

lemma large_tiles:
  "split_extent_nlcd (extent_of_bounds (total_bounds (large_aoi 5070))) (large_aoi 5070)
     = [(- 120, 75120, - 120, 100120), (74880, 150120, - 120, 100120)]"
  by (simp add: split_extent_nlcd_def split_extent_with_def large_aoi_def extent_of_bounds_def
      num_rows_def num_cols_def upt_rec subextent_def subextent_box_def Let_def
      cell_min_x_def cell_max_x_def cell_min_y_def cell_max_y_def step_x_def step_y_def
      exact_def py_round_def rint_def)

lemma str_nat_0: "str_nat 0 = ''0''"
  by code_simp

lemma str_nat_1: "str_nat (Suc 0) = ''1''"
  by code_simp

lemma large_area: "\<not> extent_area (extent_of_bounds (total_bounds (large_aoi 4326))) \<le> 9"
  by (simp add: extent_area_def extent_of_bounds_def large_aoi_def)

text \<open>
  C3 does not hold of the land-cover pipeline: with two tiles and an empty output
  directory, when the first tile is fetched and the second fails, \<open>convert_to_mannings\<close> is
  called on the missing file of the second tile and raises; the run ends after two
  requests, with the tile files of the first tile left behind and no output written.
\<close>

theorem nlcd_partial_failure_crashes:
  "(case get_nlcd_and_convert wcs_second_fails keep_all first_tile large_aoi ''out'' None empty_dir of
      Inl (e, w) \<Rightarrow>
        e = RasterioIOError
        \<and> requests w = [WcsUrl (- 120, 75120, - 120, 100120), WcsUrl (74880, 150120, - 120, 100120)]
        \<and> files w ''out/nlcd_0.tif'' = Some (GTiff [[Some 11]])
        \<and> files w ''out/nlcd_clip.tif'' = None
        \<and> files w ''out/mannings_n_clip.tif'' = None
    | Inr w \<Rightarrow> False)"
  by (simp add: get_nlcd_and_convert_def large_area get_by_chunks_def large_tiles Let_def upt_rec
      get_img_def get_url_def wcs_second_fails_def empty_dir_def convert_to_mannings_def
      read_csv_def mock_csv_file_def path_join_def remap_def value_to_manningsn_def str_nat_0 str_nat_1
      del: str_nat.simps)

text \<open>
  C2 does not hold of the land-cover pipeline: with two tiles and an empty output
  directory, when the request of the first tile fails (and every later request would
  succeed), the run ends with an exception after that one request; there is no retry and
  no warning.
\<close>

theorem nlcd_first_failure_crashes:
  "(case get_nlcd_and_convert wcs_first_fails keep_all first_tile large_aoi ''out'' None empty_dir of
      Inl (e, w) \<Rightarrow>
        e = RasterioIOError
        \<and> requests w = [WcsUrl (- 120, 75120, - 120, 100120)]
        \<and> files w = Map.empty
    | Inr w \<Rightarrow> False)"
  by (simp add: get_nlcd_and_convert_def large_area get_by_chunks_def large_tiles Let_def upt_rec
      get_img_def get_url_def wcs_first_fails_def empty_dir_def convert_to_mannings_def
      read_csv_def mock_csv_file_def path_join_def str_nat_0 str_nat_1 del: str_nat.simps)

section \<open>Properties of the hydrologic-group classifier\<close>

lemma set_map_filter_eq: "set (List.map_filter f xs) = {y. \<exists>x \<in> set xs. f x = Some y}"
  by (induction xs) (auto simp: List.map_filter_simps split: option.splits)

lemma set_group_keys:
  "set (group_keys df) = {(g, k). \<exists>r \<in> set df. hydgrp r = Some g \<and> mukey r = k}"
  by (auto simp: group_keys_def set_map_filter_eq)

lemma strict_group_keys: "sorted_wrt (<) (group_keys df)"
  by (simp add: strict_sorted_iff group_keys_def)

lemma idxmax_first:
  assumes "sorted_wrt (\<lambda>a b. fst a < fst b) (best # rs)"
  shows "idxmax best rs \<in> set (best # rs)
         \<and> (\<forall>x \<in> set (best # rs).
               snd (snd x) \<le> snd (snd (idxmax best rs))
               \<and> (snd (snd x) = snd (snd (idxmax best rs)) \<longrightarrow> fst (idxmax best rs) \<le> fst x))"
  using assms
proof (induction rs arbitrary: best)
  case Nil
  then show ?case by simp
next
  case (Cons r rs)
  let ?b = "if snd (snd best) < snd (snd r) then r else best"
  let ?m = "idxmax ?b rs"
  from Cons.prems have s: "sorted_wrt (\<lambda>a b. fst a < fst b) (?b # rs)"
    by auto
  from Cons.prems have br: "fst best < fst r" by simp
  note ih = Cons.IH [OF s]
  from ih have mem: "?m \<in> set (?b # rs)" by blast
  from ih have bnd: "\<And>x. x \<in> set (?b # rs) \<Longrightarrow>
      snd (snd x) \<le> snd (snd ?m) \<and> (snd (snd x) = snd (snd ?m) \<longrightarrow> fst ?m \<le> fst x)"
    by blast
  have m: "idxmax best (r # rs) = ?m" by simp
  have 1: "idxmax best (r # rs) \<in> set (best # r # rs)"
    using mem unfolding m by (auto split: if_splits)
  have 2: "snd (snd x) \<le> snd (snd ?m) \<and> (snd (snd x) = snd (snd ?m) \<longrightarrow> fst ?m \<le> fst x)"
    if x: "x \<in> set (best # r # rs)" for x
  proof (cases "snd (snd best) < snd (snd r)")
    case True
    then have b: "?b = r" by simp
    show ?thesis
    proof (cases "x = best")
      case True
      from bnd [of r] b have "snd (snd r) \<le> snd (snd ?m)" by simp
      with \<open>snd (snd best) < snd (snd r)\<close> True show ?thesis by simp
    next
      case False
      with x b have "x \<in> set (?b # rs)" by auto
      then show ?thesis by (rule bnd)
    qed
  next
    case False
    then have b: "?b = best" by simp
    show ?thesis
    proof (cases "x = r")
      case True
      from bnd [of best] b
      have bb: "snd (snd best) \<le> snd (snd ?m)"
        "snd (snd best) = snd (snd ?m) \<longrightarrow> fst ?m \<le> fst best" by simp_all
      from False have rb: "snd (snd r) \<le> snd (snd best)" by simp
      from rb bb(1) have le: "snd (snd r) \<le> snd (snd ?m)" by simp
      have "fst ?m \<le> fst r" if "snd (snd r) = snd (snd ?m)"
      proof -
        from that rb bb(1) have "snd (snd best) = snd (snd ?m)" by simp
        with bb(2) have "fst ?m \<le> fst best" by simp
        with br show ?thesis by simp
      qed
      with le True show ?thesis by simp
    next
      case False
      with x b have "x \<in> set (?b # rs)" by auto
      then show ?thesis by (rule bnd)
    qed
  qed
  from 1 2 show ?case unfolding m by blast
qed

lemma filter_grouped_data:
  "filter (\<lambda>(g, k', pct). k' = k) (grouped_data df)
     = map (\<lambda>(g, k'). (g, k', pct_sum df g k')) (filter (\<lambda>(g, k'). k' = k) (group_keys df))"
  by (simp add: grouped_data_def filter_map comp_def case_prod_unfold)

lemma rows_of_key_sorted:
  "sorted_wrt (\<lambda>a b. fst a < fst b) (filter (\<lambda>(g, k', pct). k' = k) (grouped_data df))"
proof -
  let ?K = "filter (\<lambda>(g, k'). k' = k) (group_keys df)"
  have "sorted_wrt (<) ?K" by (rule sorted_wrt_filter [OF strict_group_keys])
  moreover have "\<And>a b. a \<in> set ?K \<Longrightarrow> b \<in> set ?K \<Longrightarrow> a < b \<Longrightarrow> fst a < fst b"
    by (auto simp: less_prod_def')
  ultimately have "sorted_wrt (\<lambda>a b. fst a < fst b) ?K"
    by (rule sorted_wrt_mono_rel [rotated])
  then show ?thesis
    by (simp add: filter_grouped_data sorted_wrt_map case_prod_beta)
qed

lemma set_rows_of_key:
  "set (filter (\<lambda>(g, k', pct). k' = k) (grouped_data df))
     = {(g, k, pct_sum df g k) | g. \<exists>r \<in> set df. hydgrp r = Some g \<and> mukey r = k}"
  by (auto simp: filter_grouped_data set_group_keys)

lemma filter_one:
  "distinct xs \<Longrightarrow> x \<in> set xs \<Longrightarrow> filter (\<lambda>y. y = x) xs = [x]"
  by (induction xs) (auto simp: filter_empty_conv)

lemma filter_map_filter_key:
  assumes "\<And>x y. x \<in> set xs \<Longrightarrow> f x = Some y \<Longrightarrow> key y = x"
  shows "filter (\<lambda>y. key y = k) (List.map_filter f xs) = List.map_filter f (filter (\<lambda>x. x = k) xs)"
  using assms
  by (induction xs) (auto simp: List.map_filter_simps split: option.splits)

lemma hydrogroup_data_alt:
  "hydrogroup_data df
     = List.map_filter (group_idxmax (grouped_data df))
         (sort (remdups (map (\<lambda>(g, k, pct). k) (grouped_data df))))"
  by (simp add: hydrogroup_data_def Let_def)

lemma group_idxmax_props:
  assumes "r \<in> set df" and "hydgrp r = Some g0" and "mukey r = k"
  shows "\<exists>g. group_idxmax (grouped_data df) k = Some (g, k, pct_sum df g k)
           \<and> (\<exists>r' \<in> set df. hydgrp r' = Some g \<and> mukey r' = k)
           \<and> (\<forall>g'. (\<exists>r' \<in> set df. hydgrp r' = Some g' \<and> mukey r' = k) \<longrightarrow>
                  pct_sum df g' k \<le> pct_sum df g k
                  \<and> (pct_sum df g' k = pct_sum df g k \<longrightarrow> g \<le> g'))"
proof -
  let ?rows = "filter (\<lambda>(g, k', pct). k' = k) (grouped_data df)"
  have S: "set ?rows = {(g, k, pct_sum df g k) | g. \<exists>r \<in> set df. hydgrp r = Some g \<and> mukey r = k}"
    by (rule set_rows_of_key)
  from assms have "(g0, k, pct_sum df g0 k) \<in> set ?rows" unfolding S by blast
  then obtain b rs where rows: "?rows = b # rs" by (cases ?rows) auto
  have sel: "group_idxmax (grouped_data df) k = Some (idxmax b rs)" by (simp add: group_idxmax_def rows)
  have "sorted_wrt (\<lambda>a b. fst a < fst b) (b # rs)"
    using rows_of_key_sorted [of k df] unfolding rows .
  from idxmax_first [OF this]
  have mem: "idxmax b rs \<in> set ?rows"
    and bnd: "\<And>x. x \<in> set ?rows \<Longrightarrow> snd (snd x) \<le> snd (snd (idxmax b rs))
        \<and> (snd (snd x) = snd (snd (idxmax b rs)) \<longrightarrow> fst (idxmax b rs) \<le> fst x)"
    unfolding rows by blast+
  from mem obtain g where g: "idxmax b rs = (g, k, pct_sum df g k)"
    and gin: "\<exists>r \<in> set df. hydgrp r = Some g \<and> mukey r = k"
    unfolding S by blast
  have "pct_sum df g' k \<le> pct_sum df g k \<and> (pct_sum df g' k = pct_sum df g k \<longrightarrow> g \<le> g')"
    if "\<exists>r' \<in> set df. hydgrp r' = Some g' \<and> mukey r' = k" for g'
  proof -
    from that have "(g', k, pct_sum df g' k) \<in> set ?rows" unfolding S by blast
    from bnd [OF this] show ?thesis by (simp add: g)
  qed
  then have mx: "\<forall>g'. (\<exists>r' \<in> set df. hydgrp r' = Some g' \<and> mukey r' = k) \<longrightarrow>
                  pct_sum df g' k \<le> pct_sum df g k
                  \<and> (pct_sum df g' k = pct_sum df g k \<longrightarrow> g \<le> g')"
    by blast
  from sel g have "group_idxmax (grouped_data df) k = Some (g, k, pct_sum df g k)" by simp
  with gin mx show ?thesis by (intro exI [of _ g] conjI)
qed

lemma group_idxmax_key:
  assumes "group_idxmax (grouped_data df) k' = Some y"
  shows "fst (snd y) = k'"
proof -
  let ?rows = "filter (\<lambda>(g, k'', pct). k'' = k') (grouped_data df)"
  from assms obtain b rs where rows: "?rows = b # rs" and y: "y = idxmax b rs"
    by (auto simp: group_idxmax_def split: list.splits)
  have "sorted_wrt (\<lambda>a b. fst a < fst b) (b # rs)"
    using rows_of_key_sorted [of k' df] unfolding rows .
  from idxmax_first [OF this] have "y \<in> set ?rows" unfolding rows y by blast
  then show ?thesis by auto
qed

text \<open>
  The row the classifier keeps for a map-unit key, in terms of \<open>pct_sum\<close>.
\<close>

lemma hydrogroup_selected:
  assumes "r \<in> set df" and "hydgrp r = Some g0" and "mukey r = k"
  shows "\<exists>g. filter (\<lambda>(g', k', pct). k' = k) (hydrogroup_data df) = [(g, k, pct_sum df g k)]
           \<and> (\<exists>r' \<in> set df. hydgrp r' = Some g \<and> mukey r' = k)
           \<and> (\<forall>g'. (\<exists>r' \<in> set df. hydgrp r' = Some g' \<and> mukey r' = k) \<longrightarrow>
                  pct_sum df g' k \<le> pct_sum df g k
                  \<and> (pct_sum df g' k = pct_sum df g k \<longrightarrow> g \<le> g'))"
proof -
  let ?ks = "sort (remdups (map (\<lambda>(g, k, pct). k) (grouped_data df)))"
  from group_idxmax_props [OF assms] obtain g where
    sel: "group_idxmax (grouped_data df) k = Some (g, k, pct_sum df g k)"
    and gin: "\<exists>r' \<in> set df. hydgrp r' = Some g \<and> mukey r' = k"
    and mx: "\<forall>g'. (\<exists>r' \<in> set df. hydgrp r' = Some g' \<and> mukey r' = k) \<longrightarrow>
                  pct_sum df g' k \<le> pct_sum df g k
                  \<and> (pct_sum df g' k = pct_sum df g k \<longrightarrow> g \<le> g')"
    by blast
  from assms have "(g0, k) \<in> set (group_keys df)" unfolding set_group_keys by blast
  then have "(g0, k, pct_sum df g0 k) \<in> set (grouped_data df)"
    by (force simp: grouped_data_def)
  then have kin: "k \<in> set ?ks" by force
  have d: "distinct ?ks" by simp
  have "filter (\<lambda>(g', k', pct). k' = k) (hydrogroup_data df)
          = filter (\<lambda>y. fst (snd y) = k) (List.map_filter (group_idxmax (grouped_data df)) ?ks)"
    by (simp add: hydrogroup_data_alt case_prod_unfold)
  also have "\<dots> = List.map_filter (group_idxmax (grouped_data df)) (filter (\<lambda>x. x = k) ?ks)"
    by (rule filter_map_filter_key) (rule group_idxmax_key)
  also have "\<dots> = List.map_filter (group_idxmax (grouped_data df)) [k]"
    by (simp only: filter_one [OF d kin])
  also have "\<dots> = [(g, k, pct_sum df g k)]"
    by (simp add: List.map_filter_simps sel)
  finally have "filter (\<lambda>(g', k', pct). k' = k) (hydrogroup_data df) = [(g, k, pct_sum df g k)]" .
  with gin mx show ?thesis by (intro exI [of _ g] conjI)
qed

text \<open>
  C6: for every map-unit key \<open>k\<close> of the component table that has a row with a group, the
  classifier's table holds exactly one row for \<open>k\<close>; its group \<open>g\<close> occurs for \<open>k\<close>; its
  percentage is the sum of the percentages of all the rows of the table with the group
  \<open>g\<close> and the key \<open>k\<close>, a null percentage counting 0; no group of \<open>k\<close> has a greater sum,
  and among the groups of \<open>k\<close> with the same sum \<open>g\<close> is the least in the order of the
  grouping step. In the example the key 7 has the groups A: 10 + 20, B: 20 + 25 and
  C: 25 + null, and B is kept with 45.
\<close>

theorem hydrogroup_by_max_percentage:
  assumes "r \<in> set df" and "hydgrp r = Some g0" and "mukey r = k"
  shows "\<exists>g. filter (\<lambda>(g', k', pct). k' = k) (hydrogroup_data df)
               = [(g, k, sum_list (map (\<lambda>r. case comppct_r r of None \<Rightarrow> 0 | Some p \<Rightarrow> p)
                                     (filter (\<lambda>r. hydgrp r = Some g \<and> mukey r = k) df)))]
           \<and> (\<exists>r' \<in> set df. hydgrp r' = Some g \<and> mukey r' = k)
           \<and> (\<forall>g'. (\<exists>r' \<in> set df. hydgrp r' = Some g' \<and> mukey r' = k) \<longrightarrow>
                  sum_list (map (\<lambda>r. case comppct_r r of None \<Rightarrow> 0 | Some p \<Rightarrow> p)
                              (filter (\<lambda>r. hydgrp r = Some g' \<and> mukey r = k) df))
                    \<le> sum_list (map (\<lambda>r. case comppct_r r of None \<Rightarrow> 0 | Some p \<Rightarrow> p)
                                  (filter (\<lambda>r. hydgrp r = Some g \<and> mukey r = k) df))
                  \<and> (sum_list (map (\<lambda>r. case comppct_r r of None \<Rightarrow> 0 | Some p \<Rightarrow> p)
                                  (filter (\<lambda>r. hydgrp r = Some g' \<and> mukey r = k) df))
                       = sum_list (map (\<lambda>r. case comppct_r r of None \<Rightarrow> 0 | Some p \<Rightarrow> p)
                                     (filter (\<lambda>r. hydgrp r = Some g \<and> mukey r = k) df))
                     \<longrightarrow> g \<le> g'))"
  using hydrogroup_selected [OF assms] unfolding pct_sum_def .

theorem hydrogroup_by_max_percentage_witness:
  "\<lparr>mukey = ''7'', comppct_r = Some 10, hydgrp = Some ''A''\<rparr> \<in> set soil_components
   \<and> hydrogroup_data soil_components = [(''B'', ''7'', 45), (''D'', ''8'', 60)]
   \<and> filter (\<lambda>(g', k', pct). k' = ''7'') (hydrogroup_data soil_components) = [(''B'', ''7'', 20 + 25)]"
proof -
  let ?r = "\<lparr>mukey = ''7'', comppct_r = Some 10, hydgrp = Some ''A''\<rparr>"
  have 1: "?r \<in> set soil_components" by (simp add: soil_components_def)
  have 2: "hydgrp ?r = Some ''A''" "mukey ?r = ''7''" by simp_all
  have e: "hydrogroup_data soil_components = [(''B'', ''7'', 45), (''D'', ''8'', 60)]"
    by (simp add: hydrogroup_data_def group_idxmax_def grouped_data_def group_keys_def
        pct_sum_def soil_components_def List.map_filter_def)
  from hydrogroup_by_max_percentage [OF 1 2]
  obtain g where "filter (\<lambda>(g', k', pct). k' = ''7'') (hydrogroup_data soil_components)
      = [(g, ''7'', sum_list (map (\<lambda>r. case comppct_r r of None \<Rightarrow> 0 | Some p \<Rightarrow> p)
                    (filter (\<lambda>r. hydgrp r = Some g \<and> mukey r = ''7'') soil_components)))]"
    by blast
  with e 1 show ?thesis by simp
qed

section \<open>Further properties of the two pipelines\<close>

text \<open>
  The land-cover pipeline with the default lookup makes exactly one request, for the
  whole extent in EPSG:5070, when the area is at most 9 square degrees.
\<close>

lemma get_img_requests: "requests (snd (get_img wcs u f w)) = requests w @ [u]"
  by (simp add: get_img_def split: option.splits)

lemma convert_to_mannings_requests:
  "convert_to_mannings a b c w = Inr w' \<Longrightarrow> requests w' = requests w"
  by (auto simp: convert_to_mannings_def split: sum.splits option.splits content.splits if_splits)

lemma clip_image_requests:
  "clip_image m a b g w = Inr w' \<Longrightarrow> requests w' = requests w"
  by (auto simp: clip_image_def split: sum.splits option.splits content.splits)

lemma get_whole_image_requests:
  "(case get_whole_image wcs mask_crop gdf ext_albers output_directory csv w of
      Inl (e, w') \<Rightarrow> requests w' = requests w @ [get_url ext_albers]
    | Inr w' \<Rightarrow> requests w' = requests w @ [get_url ext_albers])"
proof -
  obtain result w1 where g: "get_img wcs (get_url ext_albers)
      (path_join output_directory ''nlcd_clip.tif'') w = (result, w1)"
    by (cases "get_img wcs (get_url ext_albers) (path_join output_directory ''nlcd_clip.tif'') w")
  have r1: "requests w1 = requests w @ [get_url ext_albers]"
    using get_img_requests [of wcs "get_url ext_albers" "path_join output_directory ''nlcd_clip.tif''" w]
    by (simp add: g)
  show ?thesis
    using r1
    by (auto simp: get_whole_image_def Let_def g split: sum.splits
        dest!: convert_to_mannings_requests clip_image_requests)
qed

lemma small_area_single_request:
  assumes "extent_area (extent_of_bounds (total_bounds (aoi 4326))) \<le> 9"
  shows "(case get_nlcd_and_convert wcs mask_crop warp aoi output_directory None w of
      Inl (e, w') \<Rightarrow> requests w' = requests w @ [get_url (extent_of_bounds (total_bounds (aoi 5070)))]
    | Inr w' \<Rightarrow> requests w' = requests w @ [get_url (extent_of_bounds (total_bounds (aoi 5070)))])"
  using assms get_whole_image_requests
  by (simp add: get_nlcd_and_convert_def Let_def)

text \<open>
  The soils pipeline raises when every read raises or returns an empty frame, in the
  first pass and in the retry.
\<close>

lemma get_data_attempts_all_fail:
  assumes "\<And>n. wfs u n = None \<or> wfs u n = Some []"
    and "acc = None \<or> acc = Some []"
  shows "fst (get_data_attempts wfs u attempts (acc, reads)) = None
         \<or> fst (get_data_attempts wfs u attempts (acc, reads)) = Some []"
  using assms(2)
proof (induction attempts arbitrary: acc reads)
  case Nil
  then show ?case by simp
next
  case (Cons a attempts)
  from assms(1) [of "count_list reads u"] show ?case
  proof
    assume "wfs u (count_list reads u) = None"
    then show ?thesis using Cons.IH [OF Cons.prems] by simp
  next
    assume "wfs u (count_list reads u) = Some []"
    then show ?thesis using Cons.IH [of "Some []"] by simp
  qed
qed

lemma get_data_all_fail:
  assumes "\<And>n. wfs u n = None \<or> wfs u n = Some []"
  shows "fst (get_data wfs u reads) = (None, Some u)"
proof -
  have "fst (get_data_attempts wfs u [0 ..< 3] (None, reads)) = None
        \<or> fst (get_data_attempts wfs u [0 ..< 3] (None, reads)) = Some []"
    by (rule get_data_attempts_all_fail) (use assms in auto)
  then show ?thesis
    by (auto simp: get_data_def split: prod.splits option.splits)
qed

lemma map_get_data_all_fail:
  assumes "\<And>u n. wfs u n = None \<or> wfs u n = Some []"
  shows "fst (map_get_data wfs us reads) = map (\<lambda>u. (None, Some u)) us"
proof (induction us arbitrary: reads)
  case Nil
  then show ?case by simp
next
  case (Cons u us)
  have "fst (get_data wfs u reads) = (None, Some u)"
    by (rule get_data_all_fail) (rule assms)
  with Cons.IH show ?case
    by (auto split: prod.splits) (metis fst_conv)+
qed

lemma map_filter_fst_failed: "List.map_filter fst (map (\<lambda>u. (None, Some u)) us) = []"
  by (induction us) (simp_all add: List.map_filter_simps)

lemma map_filter_snd_failed: "List.map_filter snd (map (\<lambda>u. (None, Some u)) us) = us"
  by (induction us) (simp_all add: List.map_filter_simps)

lemma acquire_all_fail:
  assumes "4 \<le> num_cores" and "\<And>u n. wfs u n = None \<or> wfs u n = Some []"
  shows "fst (acquire_ssurgo_data num_cores wfs key clip aoi)
           = Inl (Exception ''The API is not responding or no data was retrieved. Wait and try again.'')"
proof -
  have p: "0 < pool_processes num_cores"
    using assms(1) by (simp add: pool_processes_def div_greater_zero_iff)
  obtain results reads where m: "map_get_data wfs (url_list aoi) [] = (results, reads)"
    by (cases "map_get_data wfs (url_list aoi) []")
  have r: "results = map (\<lambda>u. (None, Some u)) (url_list aoi)"
    using map_get_data_all_fail [of wfs "url_list aoi" "[]"] assms(2) by (simp add: m)
  obtain rerun reads' where m2: "map_get_data wfs (url_list aoi) reads = (rerun, reads')"
    by (cases "map_get_data wfs (url_list aoi) reads")
  have r2: "rerun = map (\<lambda>u. (None, Some u)) (url_list aoi)"
    using map_get_data_all_fail [of wfs "url_list aoi" reads] assms(2) by (simp add: m2)
  show ?thesis
    by (simp add: acquire_ssurgo_data_def Let_def p m r map_filter_fst_failed
        map_filter_snd_failed get_failed_data_def m2 r2)
qed

text \<open>
  The soils pipeline on the small area with one URL that never answers: the run ends
  with the features of the three other tiles.
\<close>

lemma small_urls:
  "url_list small_aoi
     = [WfsUrl (- (43 / 2000)) (- (43 / 2000)) (101 / 500) (101 / 500),
        WfsUrl (199 / 1000) (- (43 / 2000)) (169 / 400) (101 / 500),
        WfsUrl (- (43 / 2000)) (199 / 1000) (101 / 500) (169 / 400),
        WfsUrl (199 / 1000) (199 / 1000) (169 / 400) (169 / 400)]"
  by (simp add: url_list_def buffered_extent_def small_aoi_def Let_def create_url_def
      split_extent_def split_extent_with_def num_rows_def num_cols_def upt_rec
      subextent_def subextent_box_def cell_min_x_def cell_max_x_def cell_min_y_def
      cell_max_y_def step_x_def step_y_def exact_def py_round_def rint_def)

lemma acquire_partial_failure:
  "fst (acquire_ssurgo_data 8 one_url_down id id small_aoi)
     = Inr [WfsUrl (199 / 1000) (- (43 / 2000)) (169 / 400) (101 / 500),
            WfsUrl (- (43 / 2000)) (199 / 1000) (101 / 500) (169 / 400),
            WfsUrl (199 / 1000) (199 / 1000) (169 / 400) (169 / 400)]"
  by (simp add: acquire_ssurgo_data_def Let_def pool_processes_def small_urls get_data_def
      get_failed_data_def one_url_down_def upt_rec List.map_filter_simps drop_duplicates_def)

end
